theory Spec2Isabelle
  imports Main
begin

section \<open>Values of the decoded XML tree and Python failures\<close>

text \<open>
  The module \<^verbatim>\<open>ns_api.py\<close> is Python 2 code (it uses \<^verbatim>\<open>unicode\<close> and the
  \<^verbatim>\<open>print\<close> statement). Every record class is built from the tree that
  \<^verbatim>\<open>xmltodict.parse\<close> returns: an element with children is an
  \<^verbatim>\<open>OrderedDict\<close>, repeated siblings are a \<^verbatim>\<open>list\<close>, text is a
  \<^verbatim>\<open>unicode\<close> string and an empty element is \<^verbatim>\<open>None\<close>. The same type
  carries the other Python values that end up in attributes (booleans, and the
  list literals of \<^verbatim>\<open>Departure.__init__\<close>).

  An \<^verbatim>\<open>OrderedDict\<close> is an association list in document order, looked up with
  \<open>map_of\<close>; iterating it yields its keys.
\<close>

datatype pyval =
    PNone
  | PStr string
  | PBool bool
  | PList "pyval list"
  | PDict "(string \<times> pyval) list"

text \<open>
  Exceptions are values. \<open>NotModelled\<close> is not a Python exception: it marks a
  format directive of the standard library that lies outside the fragment of
  \<^verbatim>\<open>strptime\<close>/\<^verbatim>\<open>strftime\<close> modelled below.
\<close>

datatype error = KeyError | TypeError | ValueError | AttributeError | IndexError | NotModelled

definition bnd :: "error + 'a \<Rightarrow> ('a \<Rightarrow> error + 'b) \<Rightarrow> error + 'b" where
  "bnd m f = (case m of Inl e \<Rightarrow> Inl e | Inr v \<Rightarrow> f v)"

text \<open>\<^verbatim>\<open>try: body except E: handler\<close> where the handler yields a value.\<close>

definition except :: "error \<Rightarrow> error + 'a \<Rightarrow> 'a \<Rightarrow> error + 'a" where
  "except E body handler =
     (case body of Inl e \<Rightarrow> (if e = E then Inr handler else Inl e) | Inr v \<Rightarrow> Inr v)"

text \<open>
  \<^verbatim>\<open>node[key]\<close> with a string key: a mapping raises \<^verbatim>\<open>KeyError\<close> for a
  missing key; \<^verbatim>\<open>None\<close>, strings, booleans and lists raise
  \<^verbatim>\<open>TypeError\<close>.
\<close>

fun getitem :: "pyval \<Rightarrow> string \<Rightarrow> error + pyval" where
  "getitem (PDict d) k = (case map_of d k of None \<Rightarrow> Inl KeyError | Some v \<Rightarrow> Inr v)"
| "getitem _ k = Inl TypeError"

text \<open>
  \<^verbatim>\<open>for x in node\<close>: a list yields its elements, a mapping its keys, a
  string its characters; \<^verbatim>\<open>None\<close> and booleans are not iterable.
\<close>

fun py_iter :: "pyval \<Rightarrow> error + pyval list" where
  "py_iter (PList xs) = Inr xs"
| "py_iter (PDict d) = Inr (map (\<lambda>kv. PStr (fst kv)) d)"
| "py_iter (PStr s) = Inr (map (\<lambda>c. PStr [c]) s)"
| "py_iter _ = Inl TypeError"

text \<open>A loop that builds one record per element and stops at the first failure.\<close>

fun map_each :: "('a \<Rightarrow> error + 'b) \<Rightarrow> 'a list \<Rightarrow> error + 'b list" where
  "map_each f [] = Inr []"
| "map_each f (x # xs) = bnd (f x) (\<lambda>y. bnd (map_each f xs) (\<lambda>ys. Inr (y # ys)))"

definition is_unicode :: "pyval \<Rightarrow> bool" where
  "is_unicode v = (case v of PStr _ \<Rightarrow> True | _ \<Rightarrow> False)"

definition is_OrderedDict :: "pyval \<Rightarrow> bool" where
  "is_OrderedDict v = (case v of PDict _ \<Rightarrow> True | _ \<Rightarrow> False)"


section \<open>Station\<close>

record station =
  code :: pyval
  uic_code :: pyval
  stationtype :: pyval
  names :: "(string \<times> pyval) list"
  country :: pyval
  lat :: pyval
  lon :: pyval
  synonyms :: "pyval list"

text \<open>
  The body of the \<^verbatim>\<open>try\<close> block of \<^verbatim>\<open>Station.__init__\<close>: the synonyms
  appended when nothing is raised.
\<close>

definition read_synonyms :: "pyval \<Rightarrow> error + pyval list" where
  "read_synonyms stat_dict =
     bnd (getitem stat_dict ''Synoniemen'') (\<lambda>syn.
     bnd (getitem syn ''Synoniem'') (\<lambda>raw_synonyms.
       py_iter (if is_unicode raw_synonyms then PList [raw_synonyms] else raw_synonyms)))"

definition Station_init :: "pyval \<Rightarrow> error + station" where
  "Station_init stat_dict =
     bnd (getitem stat_dict ''Code'') (\<lambda>c.
     bnd (getitem stat_dict ''UICCode'') (\<lambda>u.
     bnd (getitem stat_dict ''Type'') (\<lambda>t.
     bnd (bnd (getitem stat_dict ''Namen'') (\<lambda>n. getitem n ''Kort'')) (\<lambda>kort.
     bnd (bnd (getitem stat_dict ''Namen'') (\<lambda>n. getitem n ''Middel'')) (\<lambda>middel.
     bnd (bnd (getitem stat_dict ''Namen'') (\<lambda>n. getitem n ''Lang'')) (\<lambda>lang.
     bnd (getitem stat_dict ''Land'') (\<lambda>land.
     bnd (getitem stat_dict ''Lat'') (\<lambda>la.
     bnd (getitem stat_dict ''Lon'') (\<lambda>lo.
     bnd (except TypeError (read_synonyms stat_dict) []) (\<lambda>syns.
       Inr \<lparr> code = c, uic_code = u, stationtype = t,
             names = [(''short'', kort), (''middle'', middel), (''long'', lang)],
             country = land, lat = la, lon = lo, synonyms = syns \<rparr>))))))))))"


section \<open>Departure\<close>

text \<open>
  \<open>departure_delay\<close> and \<open>departure_delay_text\<close> are attributes that the
  constructor sets only on some paths; \<open>None\<close> means the attribute does not exist.
\<close>

record departure =
  trip_number :: pyval
  departure_time :: pyval
  has_delay :: bool
  departure_delay :: "pyval option"
  departure_delay_text :: "pyval option"
  departure_platform :: pyval
  departure_platform_changed :: pyval
  destination :: pyval
  route_text :: pyval
  train_type :: pyval
  carrier :: pyval
  journey_tip :: pyval
  remarks :: pyval

text \<open>
  The first \<^verbatim>\<open>try\<close> block: \<open>has_delay\<close> is set to true, then the two delay
  fields are read in turn; a \<^verbatim>\<open>KeyError\<close> from either read resets the flag
  and keeps whatever was assigned before it.
\<close>

definition read_delay :: "pyval \<Rightarrow> error + (bool \<times> pyval option \<times> pyval option)" where
  "read_delay departure_dict =
     (case getitem departure_dict ''VertrekVertraging'' of
        Inl e \<Rightarrow> (if e = KeyError then Inr (False, None, None) else Inl e)
      | Inr dl \<Rightarrow>
          (case getitem departure_dict ''VertrekVertragingTekst'' of
             Inl e \<Rightarrow> (if e = KeyError then Inr (False, Some dl, None) else Inl e)
           | Inr tx \<Rightarrow> Inr (True, Some dl, Some tx)))"

text \<open>
  From line 132 on, each statement has the form
  \<^verbatim>\<open>self.train_type = departure_dict = ['TreinSoort']\<close>: a chained assignment
  of a one-element list literal to the attribute and to the local variable. No
  lookup happens, so no \<^verbatim>\<open>KeyError\<close> can reach the two handlers.
\<close>

definition Departure_init :: "pyval \<Rightarrow> error + departure" where
  "Departure_init departure_dict =
     bnd (getitem departure_dict ''RitNummer'') (\<lambda>rit.
     bnd (getitem departure_dict ''VertrekTijd'') (\<lambda>tijd.
     bnd (read_delay departure_dict) (\<lambda>dl.
     bnd (getitem departure_dict ''VertrekSpoor'') (\<lambda>spoor.
     bnd (bnd (getitem departure_dict ''VertrekSpoor'') (\<lambda>s. getitem s ''@wijziging'')) (\<lambda>wijz.
     bnd (getitem departure_dict ''EindBestemming'') (\<lambda>eind.
     bnd (except KeyError (getitem departure_dict ''RouteTekst'') PNone) (\<lambda>route.
     bnd (except KeyError (Inr (PList [PStr ''ReisTip''])) PNone) (\<lambda>tip.
     bnd (except KeyError (Inr (PList [PStr ''Opmerkingen''])) (PList [])) (\<lambda>rem.
       Inr \<lparr> trip_number = rit, departure_time = tijd,
             has_delay = fst dl, departure_delay = fst (snd dl),
             departure_delay_text = snd (snd dl),
             departure_platform = spoor, departure_platform_changed = wijz,
             destination = eind, route_text = route,
             train_type = PList [PStr ''TreinSoort''],
             carrier = PList [PStr ''Vervoerder''],
             journey_tip = tip, remarks = rem \<rparr>)))))))))"

text \<open>
  The \<^verbatim>\<open>delay\<close> property. Reading an attribute that was never set raises
  \<^verbatim>\<open>AttributeError\<close>.
\<close>

definition Departure_delay :: "departure \<Rightarrow> error + pyval" where
  "Departure_delay dep =
     (if has_delay dep
      then (case departure_delay dep of None \<Rightarrow> Inl AttributeError | Some v \<Rightarrow> Inr v)
      else Inr PNone)"


section \<open>TripRemark and TripSubpart\<close>

record trip_remark =
  remark_id :: pyval
  is_grave :: bool
  remark_text :: pyval

definition TripRemark_init :: "pyval \<Rightarrow> error + trip_remark" where
  "TripRemark_init part_dict =
     bnd (getitem part_dict ''Id'') (\<lambda>i.
     bnd (getitem part_dict ''Ernstig'') (\<lambda>ernstig.
     bnd (getitem part_dict ''Text'') (\<lambda>t.
       Inr \<lparr> remark_id = i, is_grave = (ernstig \<noteq> PStr ''false''), remark_text = t \<rparr>)))"

record trip_subpart =
  trip_type :: pyval
  transporter :: pyval
  transport_type :: pyval
  journey_id :: pyval
  part_status :: pyval
  part_going :: bool

definition TripSubpart_init :: "pyval \<Rightarrow> error + trip_subpart" where
  "TripSubpart_init part_dict =
     bnd (getitem part_dict ''@reisSoort'') (\<lambda>soort.
     bnd (getitem part_dict ''Vervoerder'') (\<lambda>verv.
     bnd (getitem part_dict ''VervoerType'') (\<lambda>vtype.
     bnd (getitem part_dict ''RitNummer'') (\<lambda>rit.
     bnd (getitem part_dict ''Status'') (\<lambda>st.
       Inr \<lparr> trip_type = soort, transporter = verv, transport_type = vtype,
             journey_id = rit, part_status = st,
             part_going = (st \<noteq> PStr ''GEANNULEERD'') \<rparr>)))))"


section \<open>The library's datetime, as far as the module uses it\<close>

text \<open>
  \<^verbatim>\<open>datetime\<close>, \<^verbatim>\<open>timedelta\<close>, \<^verbatim>\<open>int\<close> and
  \<^verbatim>\<open>pytz.tzinfo.StaticTzInfo\<close> are not code of the module. They are modelled
  after CPython 2.7 so that the module's own functions can be evaluated. A
  \<^verbatim>\<open>datetime\<close> never carries microseconds here (no format of the module has
  \<^verbatim>\<open>%f\<close>); \<open>utcoffset\<close> is the offset in minutes of the attached
  \<^verbatim>\<open>OffsetTime\<close>, \<open>None\<close> for a naive value. A \<^verbatim>\<open>timedelta\<close> is a
  number of seconds. Characters stand for ASCII code points.
\<close>

record datetime =
  year :: int
  month :: int
  day :: int
  hour :: int
  minute :: int
  second :: int
  utcoffset :: "int option"

definition digit_of :: "char \<Rightarrow> nat option" where
  "digit_of c = map_of
     [(CHR ''0'', 0), (CHR ''1'', 1), (CHR ''2'', 2), (CHR ''3'', 3), (CHR ''4'', 4),
      (CHR ''5'', 5), (CHR ''6'', 6), (CHR ''7'', 7), (CHR ''8'', 8), (CHR ''9'', 9)] c"

definition is_digit :: "char \<Rightarrow> bool" where
  "is_digit c = (digit_of c \<noteq> None)"

definition is_space :: "char \<Rightarrow> bool" where
  "is_space c = (c \<in> set [CHR '' '', CHR 0x09, CHR 0x0A, CHR 0x0B, CHR 0x0C, CHR 0x0D])"

fun decimal :: "nat \<Rightarrow> string \<Rightarrow> nat" where
  "decimal n [] = n"
| "decimal n (c # cs) = decimal (10 * n + (case digit_of c of None \<Rightarrow> 0 | Some d \<Rightarrow> d)) cs"

text \<open>
  \<^verbatim>\<open>int(s)\<close> in base ten: optional blanks, an optional sign, optional blanks
  (Python 2 skips them after the sign as well), at least one digit, optional
  blanks. Anything else is a \<^verbatim>\<open>ValueError\<close>.
\<close>

definition py_int :: "string \<Rightarrow> error + int" where
  "py_int s =
     (let s1 = dropWhile is_space s;
          neg = (case s1 of [] \<Rightarrow> False | c # _ \<Rightarrow> c = CHR ''-'');
          s2 = (case s1 of [] \<Rightarrow> []
                | c # cs \<Rightarrow> if c = CHR ''-'' \<or> c = CHR ''+'' then cs else s1);
          s3 = dropWhile is_space s2;
          ds = takeWhile is_digit s3;
          rest = dropWhile is_space (dropWhile is_digit s3)
      in if ds = [] \<or> rest \<noteq> [] then Inl ValueError
         else Inr (if neg then - int (decimal 0 ds) else int (decimal 0 ds)))"

text \<open>
  \<^verbatim>\<open>OffsetTime.__init__\<close>: the value is the \<open>_utcoffset\<close> it stores,
  \<^verbatim>\<open>timedelta(hours=hours, minutes=minutes)\<close>, in minutes.
\<close>

definition OffsetTime :: "string \<Rightarrow> error + int" where
  "OffsetTime offset =
     bnd (py_int (take 3 offset)) (\<lambda>hours.
     bnd (case offset of [] \<Rightarrow> Inl IndexError | c # _ \<Rightarrow> py_int (c # drop 3 offset)) (\<lambda>minutes.
       Inr (60 * hours + minutes)))"

subsection \<open>\<^verbatim>\<open>datetime.strptime\<close>\<close>

text \<open>
  The directives \<^verbatim>\<open>%Y %m %d %H %M %S\<close> and \<^verbatim>\<open>%%\<close> are modelled with
  the regular expressions of \<^verbatim>\<open>_strptime.py\<close>; an alternative is a list of
  character classes, tried in the order the expression lists them.
\<close>

datatype directive = DY | Dm | Dd | DH | DM | DS

datatype fmt_item = Lit char | Dir directive

definition alternatives :: "directive \<Rightarrow> string list list" where
  "alternatives d =
     (let dg = ''0123456789''; nz = ''123456789'' in
      case d of
        DY \<Rightarrow> [[dg, dg, dg, dg]]
      | Dm \<Rightarrow> [[''1'', ''012''], [''0'', nz], [nz]]
      | Dd \<Rightarrow> [[''3'', ''01''], [''12'', dg], [''0'', nz], [nz], ['' '', nz]]
      | DH \<Rightarrow> [[''2'', ''0123''], [''01'', dg], [dg]]
      | DM \<Rightarrow> [[''012345'', dg], [dg]]
      | DS \<Rightarrow> [[''6'', ''01''], [''012345'', dg], [dg]])"

definition directive_of :: "char \<Rightarrow> directive option" where
  "directive_of c = map_of
     [(CHR ''Y'', DY), (CHR ''m'', Dm), (CHR ''d'', Dd),
      (CHR ''H'', DH), (CHR ''M'', DM), (CHR ''S'', DS)] c"

text \<open>
  Directives that the library knows but this model does not, and blanks in the
  format (which the library turns into \<^verbatim>\<open>\s+\<close>), give \<open>NotModelled\<close>; a
  character after \<^verbatim>\<open>%\<close> that the library does not know (such as
  \<^verbatim>\<open>z\<close>, which Python 2 cannot parse) or a trailing \<^verbatim>\<open>%\<close> is a
  \<^verbatim>\<open>ValueError\<close>.
\<close>

fun parse_format :: "string \<Rightarrow> error + fmt_item list" where
  "parse_format [] = Inr []"
| "parse_format [c] =
     (if c = CHR ''%'' then Inl ValueError
      else if is_space c then Inl NotModelled else Inr [Lit c])"
| "parse_format (c # d # rest) =
     (if c = CHR ''%'' then
        (if d = CHR ''%'' then bnd (parse_format rest) (\<lambda>is. Inr (Lit d # is))
         else case directive_of d of
                Some x \<Rightarrow> bnd (parse_format rest) (\<lambda>is. Inr (Dir x # is))
              | None \<Rightarrow> if d \<in> set ''aAbBcfIjpUwWxXyZ'' then Inl NotModelled
                        else Inl ValueError)
      else if is_space c then Inl NotModelled
      else bnd (parse_format (d # rest)) (\<lambda>is. Inr (Lit c # is)))"

definition directives_of :: "fmt_item list \<Rightarrow> directive list" where
  "directives_of items = concat (map (\<lambda>i. case i of Dir d \<Rightarrow> [d] | Lit _ \<Rightarrow> []) items)"

definition to_lower :: "char \<Rightarrow> char" where
  "to_lower c =
     (case map_of (zip ''ABCDEFGHIJKLMNOPQRSTUVWXYZ'' ''abcdefghijklmnopqrstuvwxyz'') c of
        None \<Rightarrow> c | Some l \<Rightarrow> l)"

fun match_classes :: "string list \<Rightarrow> string \<Rightarrow> (string \<times> string) option" where
  "match_classes [] s = Some ([], s)"
| "match_classes (cl # cls) [] = None"
| "match_classes (cl # cls) (c # cs) =
     (if c \<in> set cl
      then (case match_classes cls cs of None \<Rightarrow> None | Some (m, r) \<Rightarrow> Some (c # m, r))
      else None)"

fun first_some :: "'a option list \<Rightarrow> 'a option" where
  "first_some [] = None"
| "first_some (None # xs) = first_some xs"
| "first_some (Some x # xs) = Some x"

text \<open>
  \<^verbatim>\<open>re.match\<close> with \<^verbatim>\<open>IGNORECASE\<close>: the first match in the order a
  backtracking matcher finds it, with the text of each group and the unmatched
  rest of the data.
\<close>

fun re_match ::
  "fmt_item list \<Rightarrow> string \<Rightarrow> (directive \<times> string) list
     \<Rightarrow> ((directive \<times> string) list \<times> string) option" where
  "re_match [] s g = Some (g, s)"
| "re_match (Lit c # is) s g =
     (case s of [] \<Rightarrow> None
      | x # xs \<Rightarrow> if to_lower x = to_lower c then re_match is xs g else None)"
| "re_match (Dir d # is) s g =
     first_some (map (\<lambda>alt. case match_classes alt s of
                              None \<Rightarrow> None
                            | Some (m, r) \<Rightarrow> re_match is r ((d, m) # g))
                     (alternatives d))"

definition is_leap :: "int \<Rightarrow> bool" where
  "is_leap y = (y mod 4 = 0 \<and> (y mod 100 \<noteq> 0 \<or> y mod 400 = 0))"

definition days_in_month :: "int \<Rightarrow> int \<Rightarrow> int" where
  "days_in_month y m =
     (if m = 2 then (if is_leap y then 29 else 28)
      else if m = 4 \<or> m = 6 \<or> m = 9 \<or> m = 11 then 30 else 31)"

text \<open>The constructor \<^verbatim>\<open>datetime(y, m, d, H, M, S)\<close> with its range checks.\<close>

definition datetime_new :: "int \<Rightarrow> int \<Rightarrow> int \<Rightarrow> int \<Rightarrow> int \<Rightarrow> int \<Rightarrow> error + datetime" where
  "datetime_new y m d H M S =
     (if 1 \<le> y \<and> y \<le> 9999 \<and> 1 \<le> m \<and> m \<le> 12 \<and> 1 \<le> d \<and> d \<le> days_in_month y m
         \<and> 0 \<le> H \<and> H < 24 \<and> 0 \<le> M \<and> M < 60 \<and> 0 \<le> S \<and> S < 60
      then Inr \<lparr> year = y, month = m, day = d, hour = H, minute = M, second = S,
                 utcoffset = None \<rparr>
      else Inl ValueError)"

definition group_int :: "(directive \<times> string) list \<Rightarrow> directive \<Rightarrow> int \<Rightarrow> error + int" where
  "group_int g d dflt = (case map_of g d of None \<Rightarrow> Inr dflt | Some txt \<Rightarrow> py_int txt)"

definition strptime :: "string \<Rightarrow> string \<Rightarrow> error + datetime" where
  "strptime data_string fmt =
     bnd (parse_format fmt) (\<lambda>items.
       if \<not> distinct (directives_of items) then Inl NotModelled
       else case re_match items data_string [] of
              None \<Rightarrow> Inl ValueError
            | Some (g, rest) \<Rightarrow>
                if rest \<noteq> [] then Inl ValueError
                else bnd (group_int g DY 1900) (\<lambda>y.
                     bnd (group_int g Dm 1) (\<lambda>m.
                     bnd (group_int g Dd 1) (\<lambda>d.
                     bnd (group_int g DH 0) (\<lambda>H.
                     bnd (group_int g DM 0) (\<lambda>M.
                     bnd (group_int g DS 0) (\<lambda>S.
                       datetime_new y m d H M S)))))))"


subsection \<open>\<^verbatim>\<open>strftime\<close>, \<^verbatim>\<open>isoformat\<close>, comparison and difference\<close>

definition digit_char :: "int \<Rightarrow> char" where
  "digit_char n = ''0123456789'' ! nat n"

definition pad2 :: "int \<Rightarrow> string" where
  "pad2 n = [digit_char (n div 10 mod 10), digit_char (n mod 10)]"

definition pad4 :: "int \<Rightarrow> string" where
  "pad4 n = pad2 (n div 100) @ pad2 (n mod 100)"

text \<open>
  The library asks the \<^verbatim>\<open>tzinfo\<close> for its offset whenever it formats,
  compares or subtracts an aware value, and raises \<^verbatim>\<open>ValueError\<close> unless the
  offset lies in \<open>-1439 .. 1439\<close> minutes.
\<close>

definition call_utcoffset :: "datetime \<Rightarrow> error + int option" where
  "call_utcoffset dt =
     (case utcoffset dt of
        None \<Rightarrow> Inr None
      | Some off \<Rightarrow> if - 1440 < off \<and> off < 1440 then Inr (Some off) else Inl ValueError)"

definition format_utcoffset :: "string \<Rightarrow> datetime \<Rightarrow> error + string" where
  "format_utcoffset sep dt =
     bnd (call_utcoffset dt) (\<lambda>uo.
       case uo of
         None \<Rightarrow> Inr []
       | Some off \<Rightarrow>
           Inr ((if off < 0 then ''-'' else ''+'')
                @ pad2 (\<bar>off\<bar> div 60) @ sep @ pad2 (\<bar>off\<bar> mod 60)))"

definition directive_text :: "datetime \<Rightarrow> char \<Rightarrow> error + string" where
  "directive_text dt d =
     (if d = CHR ''Y'' then Inr (pad4 (year dt))
      else if d = CHR ''m'' then Inr (pad2 (month dt))
      else if d = CHR ''d'' then Inr (pad2 (day dt))
      else if d = CHR ''H'' then Inr (pad2 (hour dt))
      else if d = CHR ''M'' then Inr (pad2 (minute dt))
      else if d = CHR ''S'' then Inr (pad2 (second dt))
      else if d = CHR ''z'' then format_utcoffset [] dt
      else if d = CHR ''%'' then Inr ''%''
      else Inl NotModelled)"

fun expand_format :: "datetime \<Rightarrow> string \<Rightarrow> error + string" where
  "expand_format dt [] = Inr []"
| "expand_format dt [c] = (if c = CHR ''%'' then Inl ValueError else Inr [c])"
| "expand_format dt (c # d # rest) =
     (if c = CHR ''%''
      then bnd (directive_text dt d) (\<lambda>t. bnd (expand_format dt rest) (\<lambda>r. Inr (t @ r)))
      else bnd (expand_format dt (d # rest)) (\<lambda>r. Inr (c # r)))"

text \<open>Python 2 refuses to format a year before 1900.\<close>

definition strftime :: "datetime \<Rightarrow> string \<Rightarrow> error + string" where
  "strftime dt fmt = (if year dt < 1900 then Inl ValueError else expand_format dt fmt)"

definition isoformat :: "datetime \<Rightarrow> error + string" where
  "isoformat dt =
     bnd (format_utcoffset '':'' dt) (\<lambda>off.
       Inr (pad4 (year dt) @ ''-'' @ pad2 (month dt) @ ''-'' @ pad2 (day dt) @ ''T''
            @ pad2 (hour dt) @ '':'' @ pad2 (minute dt) @ '':'' @ pad2 (second dt) @ off))"

definition days_before_year :: "int \<Rightarrow> int" where
  "days_before_year y = (y - 1) * 365 + (y - 1) div 4 - (y - 1) div 100 + (y - 1) div 400"

definition days_before_month :: "int \<Rightarrow> int \<Rightarrow> int" where
  "days_before_month y m = sum_list (map (days_in_month y) [1 .. m - 1])"

text \<open>Seconds since the start of day 0 of the proleptic calendar, offset ignored.\<close>

definition naive_seconds :: "datetime \<Rightarrow> int" where
  "naive_seconds dt =
     (days_before_year (year dt) + days_before_month (year dt) (month dt) + day dt) * 86400
     + hour dt * 3600 + minute dt * 60 + second dt"

text \<open>
  \<^verbatim>\<open>a - b\<close> on two \<^verbatim>\<open>datetime\<close>s whose \<^verbatim>\<open>tzinfo\<close> objects are distinct
  (every \<^verbatim>\<open>load_datetime\<close> call creates its own \<^verbatim>\<open>OffsetTime\<close>): two
  aware values are brought to UTC, two naive ones are subtracted as they are, a
  mixed pair is a \<^verbatim>\<open>TypeError\<close>. \<^verbatim>\<open>a > b\<close> is decided the same way.
\<close>

definition datetime_sub :: "datetime \<Rightarrow> datetime \<Rightarrow> error + int" where
  "datetime_sub a b =
     bnd (call_utcoffset a) (\<lambda>oa.
     bnd (call_utcoffset b) (\<lambda>ob.
       case (oa, ob) of
         (None, None) \<Rightarrow> Inr (naive_seconds a - naive_seconds b)
       | (Some x, Some y) \<Rightarrow> Inr ((naive_seconds a - 60 * x) - (naive_seconds b - 60 * y))
       | _ \<Rightarrow> Inl TypeError))"

definition datetime_gt :: "datetime \<Rightarrow> datetime \<Rightarrow> error + bool" where
  "datetime_gt a b = bnd (datetime_sub a b) (\<lambda>delta. Inr (0 < delta))"


section \<open>\<^verbatim>\<open>load_datetime\<close> and \<^verbatim>\<open>dump_datetime\<close>\<close>

text \<open>
  \<^verbatim>\<open>value[-5:]\<close> and \<^verbatim>\<open>value[:-5]\<close> are the last five characters and what
  precedes them (all of a shorter string, and nothing). The \<^verbatim>\<open>OffsetTime\<close> is
  built before the rest is parsed; \<^verbatim>\<open>localize\<close> attaches it to the naive
  result.
\<close>

definition endswith :: "string \<Rightarrow> string \<Rightarrow> bool" where
  "endswith s suffix = (length suffix \<le> length s \<and> drop (length s - length suffix) s = suffix)"

definition load_datetime :: "string \<Rightarrow> string \<Rightarrow> error + datetime" where
  "load_datetime val dt_format =
     (if endswith dt_format ''%z''
      then (let dt_format' = take (length dt_format - 2) dt_format;
                offset = drop (length val - 5) val;
                val' = take (length val - 5) val
            in bnd (OffsetTime offset) (\<lambda>tz.
               bnd (strptime val' dt_format') (\<lambda>dt. Inr (dt\<lparr> utcoffset := Some tz \<rparr>))))
      else strptime val dt_format)"

definition dump_datetime :: "datetime \<Rightarrow> string \<Rightarrow> error + string" where
  "dump_datetime val dt_format = strftime val dt_format"


section \<open>Trip\<close>

record trip =
  status :: pyval
  nr_transfers :: pyval
  travel_time_planned :: pyval
  going :: bool
  travel_time_actual :: pyval
  is_optimal :: bool
  departure_time_planned :: "datetime option"
  departure_time_actual :: "datetime option"
  arrival_time_planned :: "datetime option"
  arrival_time_actual :: "datetime option"
  trip_parts :: "trip_subpart list"
  trip_remarks :: "trip_remark list"

definition dt_format :: string where
  "dt_format = ''%Y-%m-%dT%H:%M:%S%z''"

text \<open>
  \<^verbatim>\<open>try: x = load_datetime(trip_dict[key], dt_format) except: x = None\<close>. The
  bare \<^verbatim>\<open>except\<close> catches everything. A value that is not a string always
  raises inside \<^verbatim>\<open>load_datetime\<close> (slicing \<^verbatim>\<open>None\<close> or a mapping, or
  \<^verbatim>\<open>int\<close> of a list), so it ends as \<^verbatim>\<open>None\<close> too.
\<close>

definition read_timestamp :: "pyval \<Rightarrow> string \<Rightarrow> datetime option" where
  "read_timestamp trip_dict key =
     (case getitem trip_dict key of
        Inr (PStr s) \<Rightarrow> (case load_datetime s dt_format of Inl _ \<Rightarrow> None | Inr dt \<Rightarrow> Some dt)
      | _ \<Rightarrow> None)"

text \<open>The single-or-list test applied to both child sequences.\<close>

definition wrap_single :: "pyval \<Rightarrow> pyval" where
  "wrap_single raw = (if is_OrderedDict raw then PList [raw] else raw)"

definition read_parts :: "pyval \<Rightarrow> error + trip_subpart list" where
  "read_parts trip_dict =
     bnd (getitem trip_dict ''ReisDeel'') (\<lambda>raw_parts.
     bnd (py_iter (wrap_single raw_parts)) (\<lambda>parts.
       map_each TripSubpart_init parts))"

text \<open>
  The \<^verbatim>\<open>try\<close> block around the remarks ends at the loop, so a
  \<^verbatim>\<open>KeyError\<close> raised while a \<^verbatim>\<open>TripRemark\<close> is built is caught by the
  same handler as a missing \<^verbatim>\<open>Melding\<close>.
\<close>

definition read_remarks :: "pyval \<Rightarrow> error + trip_remark list" where
  "read_remarks trip_dict =
     except KeyError
       (bnd (getitem trip_dict ''Melding'') (\<lambda>raw_remarks.
        bnd (py_iter (wrap_single raw_remarks)) (\<lambda>rs.
          map_each TripRemark_init rs)))
       []"

definition read_planned :: "pyval \<Rightarrow> error + (pyval \<times> bool)" where
  "read_planned trip_dict =
     (case getitem trip_dict ''GeplandeReisTijd'' of
        Inl e \<Rightarrow> (if e = KeyError then Inr (PNone, False) else Inl e)
      | Inr v \<Rightarrow> Inr (v, True))"

definition Trip_init :: "pyval \<Rightarrow> error + trip" where
  "Trip_init trip_dict =
     bnd (getitem trip_dict ''Status'') (\<lambda>st.
     bnd (getitem trip_dict ''AantalOverstappen'') (\<lambda>nr.
     bnd (read_planned trip_dict) (\<lambda>pl.
     bnd (getitem trip_dict ''ActueleReisTijd'') (\<lambda>act.
     bnd (getitem trip_dict ''Optimaal'') (\<lambda>opt.
     bnd (read_parts trip_dict) (\<lambda>parts.
     bnd (read_remarks trip_dict) (\<lambda>rems.
       Inr \<lparr> status = st, nr_transfers = nr,
             travel_time_planned = fst pl, going = snd pl,
             travel_time_actual = act, is_optimal = (opt = PStr ''true''),
             departure_time_planned = read_timestamp trip_dict ''GeplandeVertrekTijd'',
             departure_time_actual = read_timestamp trip_dict ''ActueleVertrekTijd'',
             arrival_time_planned = read_timestamp trip_dict ''GeplandeAankomstTijd'',
             arrival_time_actual = read_timestamp trip_dict ''ActueleAankomstTijd'',
             trip_parts = parts, trip_remarks = rems \<rparr>)))))))"

text \<open>
  The \<^verbatim>\<open>delay\<close> property: \<^verbatim>\<open>actual > planned\<close>, then
  \<^verbatim>\<open>actual - planned\<close>. A \<^verbatim>\<open>datetime\<close> refuses to be compared with
  \<^verbatim>\<open>None\<close> (\<^verbatim>\<open>TypeError\<close>); in Python 2 \<^verbatim>\<open>None > None\<close> is false.
  The result is \<open>Some\<close> of the difference in seconds, or \<open>None\<close> for Python's
  \<^verbatim>\<open>None\<close>.
\<close>

definition Trip_delay :: "trip \<Rightarrow> error + int option" where
  "Trip_delay t =
     (case (departure_time_actual t, departure_time_planned t) of
        (Some a, Some p) \<Rightarrow>
          bnd (datetime_gt a p) (\<lambda>later.
            if later then bnd (datetime_sub a p) (\<lambda>d. Inr (Some d)) else Inr None)
      | (None, None) \<Rightarrow> Inr None
      | _ \<Rightarrow> Inl TypeError)"


text \<open>
  \<^verbatim>\<open>print(newtrip)\<close> evaluates \<^verbatim>\<open>__unicode__\<close>, which formats the planned
  and the actual departure time; formatting an aware \<^verbatim>\<open>datetime\<close> asks for
  its offset. Only whether that raises is modelled.
\<close>

definition Trip_unicode_check :: "trip \<Rightarrow> error + unit" where
  "Trip_unicode_check t =
     bnd (case departure_time_planned t of None \<Rightarrow> Inr None | Some dt \<Rightarrow> call_utcoffset dt)
       (\<lambda>_.
     bnd (case departure_time_actual t of None \<Rightarrow> Inr None | Some dt \<Rightarrow> call_utcoffset dt)
       (\<lambda>_. Inr ()))"


section \<open>JSON projection\<close>

text \<open>
  \<^verbatim>\<open>json.dumps\<close> is a parameter: a function from the value it is given to
  the text it returns. The values handed to it below are built from strings,
  \<^verbatim>\<open>None\<close>, booleans, lists and mappings only, which it always accepts. A
  \<^verbatim>\<open>__dict__\<close> is listed in the order the constructor assigns the
  attributes.
\<close>

definition TripSubpart_getstate :: "trip_subpart \<Rightarrow> (string \<times> pyval) list" where
  "TripSubpart_getstate p =
     [(''trip_type'', trip_type p), (''transporter'', transporter p),
      (''transport_type'', transport_type p), (''journey_id'', journey_id p),
      (''status'', part_status p), (''going'', PBool (part_going p))]"

definition TripSubpart_to_json :: "(pyval \<Rightarrow> string) \<Rightarrow> trip_subpart \<Rightarrow> string" where
  "TripSubpart_to_json dumps p = dumps (PDict (TripSubpart_getstate p))"

definition TripRemark_getstate :: "trip_remark \<Rightarrow> (string \<times> pyval) list" where
  "TripRemark_getstate r =
     [(''id'', remark_id r), (''is_grave'', PBool (is_grave r)), (''text'', remark_text r)]"

definition TripRemark_to_json :: "(pyval \<Rightarrow> string) \<Rightarrow> trip_remark \<Rightarrow> string" where
  "TripRemark_to_json dumps r = dumps (PDict (TripRemark_getstate r))"

text \<open>
  \<^verbatim>\<open>result[key].isoformat()\<close>: \<^verbatim>\<open>None\<close> has no such method.
\<close>

definition isoformat_attr :: "datetime option \<Rightarrow> error + pyval" where
  "isoformat_attr v =
     (case v of None \<Rightarrow> Inl AttributeError | Some dt \<Rightarrow> bnd (isoformat dt) (\<lambda>s. Inr (PStr s)))"

definition Trip_getstate :: "(pyval \<Rightarrow> string) \<Rightarrow> trip \<Rightarrow> error + (string \<times> pyval) list" where
  "Trip_getstate dumps t =
     bnd (isoformat_attr (departure_time_actual t)) (\<lambda>da.
     bnd (isoformat_attr (arrival_time_actual t)) (\<lambda>aa.
     bnd (isoformat_attr (departure_time_planned t)) (\<lambda>dp.
     bnd (isoformat_attr (arrival_time_planned t)) (\<lambda>ap.
       Inr [(''status'', status t), (''nr_transfers'', nr_transfers t),
            (''travel_time_planned'', travel_time_planned t), (''going'', PBool (going t)),
            (''travel_time_actual'', travel_time_actual t),
            (''is_optimal'', PBool (is_optimal t)),
            (''departure_time_planned'', dp), (''departure_time_actual'', da),
            (''arrival_time_planned'', ap), (''arrival_time_actual'', aa),
            (''trip_parts'',
               PList (map (\<lambda>p. PStr (TripSubpart_to_json dumps p)) (trip_parts t))),
            (''trip_remarks'',
               PList (map (\<lambda>r. PStr (TripRemark_to_json dumps r)) (trip_remarks t)))]))))"

definition Trip_to_json :: "(pyval \<Rightarrow> string) \<Rightarrow> trip \<Rightarrow> error + string" where
  "Trip_to_json dumps t = bnd (Trip_getstate dumps t) (\<lambda>st. Inr (dumps (PDict st)))"


section \<open>The parse methods of \<^verbatim>\<open>NSAPI\<close>\<close>

text \<open>
  Each method starts with \<^verbatim>\<open>obj = xmltodict.parse(xml)\<close>; the functions below
  take \<open>obj\<close>, the decoded document. The result is \<open>Some\<close> of the list a
  \<^verbatim>\<open>return\<close> statement hands back, or \<open>None\<close> when the method ends without
  one and so returns Python's \<^verbatim>\<open>None\<close>. Of the values printed in the loops,
  those whose computation can raise are evaluated here as well; the console
  output itself is not part of the model.
\<close>

definition parse_departures :: "pyval \<Rightarrow> error + departure list option" where
  "parse_departures obj =
     bnd (bnd (getitem obj ''ActueleVertrekTijden'') (\<lambda>a. getitem a ''VertrekkendeTrein''))
       (\<lambda>node.
     bnd (py_iter node) (\<lambda>elems.
     bnd (map_each (\<lambda>departure.
            bnd (Departure_init departure) (\<lambda>newdep.
            bnd (Departure_delay newdep) (\<lambda>_. Inr newdep))) elems) (\<lambda>departures.
       Inr (Some departures))))"

definition parse_trips :: "(pyval \<Rightarrow> string) \<Rightarrow> pyval \<Rightarrow> error + trip list option" where
  "parse_trips dumps obj =
     bnd (bnd (getitem obj ''ReisMogelijkheden'') (\<lambda>a. getitem a ''ReisMogelijkheid''))
       (\<lambda>node.
     bnd (py_iter node) (\<lambda>elems.
     bnd (map_each (\<lambda>trip.
            bnd (Trip_init trip) (\<lambda>newtrip.
            bnd (Trip_unicode_check newtrip) (\<lambda>_.
            bnd (Trip_to_json dumps newtrip) (\<lambda>_.
            bnd (Trip_delay newtrip) (\<lambda>_. Inr newtrip))))) elems) (\<lambda>trips.
       Inr None)))"

definition parse_stations :: "pyval \<Rightarrow> error + station list option" where
  "parse_stations obj =
     bnd (bnd (getitem obj ''Stations'') (\<lambda>a. getitem a ''Station'')) (\<lambda>node.
     bnd (py_iter node) (\<lambda>elems.
     bnd (map_each Station_init elems) (\<lambda>stations.
       Inr None)))"

text \<open>
  \<^verbatim>\<open>parse_departures\<close> and \<^verbatim>\<open>parse_trips\<close> are declared
  \<^verbatim>\<open>@classmethod\<close> with \<^verbatim>\<open>xml\<close> as their only parameter. Python passes
  the class as first positional argument, so the number of declared parameters
  must be one more than the number of arguments written at the call.
\<close>

definition classmethod_bind :: "nat \<Rightarrow> 'a \<Rightarrow> 'a list \<Rightarrow> error + 'a list" where
  "classmethod_bind nparams cls args =
     (if Suc (length args) = nparams then Inr (cls # args) else Inl TypeError)"



section \<open>Sample documents\<close>

text \<open>Decoded fragments in the shape \<^verbatim>\<open>xmltodict\<close> gives the API's answers.\<close>

definition departure_common :: "(string \<times> pyval) list" where
  "departure_common =
     [(''VertrekSpoor'', PDict [(''@wijziging'', PStr ''false''), (''#text'', PStr ''5'')]),
      (''EindBestemming'', PStr ''Utrecht Centraal''),
      (''TreinSoort'', PStr ''Intercity''),
      (''Vervoerder'', PStr ''NS'')]"

definition departure_delayed :: pyval where
  "departure_delayed =
     PDict ([(''RitNummer'', PStr ''4116''), (''VertrekTijd'', PStr ''2024-03-01T10:15:00+0100''),
             (''VertrekVertraging'', PStr ''PT5M''),
             (''VertrekVertragingTekst'', PStr ''+5 min'')] @ departure_common)"

definition departure_on_time :: pyval where
  "departure_on_time =
     PDict ([(''RitNummer'', PStr ''4118''), (''VertrekTijd'', PStr ''2024-03-01T10:45:00+0100'')]
            @ departure_common)"

definition departure_delay_without_text :: pyval where
  "departure_delay_without_text =
     PDict ([(''RitNummer'', PStr ''4120''), (''VertrekTijd'', PStr ''2024-03-01T11:15:00+0100''),
             (''VertrekVertraging'', PStr ''PT5M'')] @ departure_common)"

definition departures_document :: pyval where
  "departures_document =
     PDict [(''ActueleVertrekTijden'',
             PDict [(''VertrekkendeTrein'', PList [departure_delayed, departure_on_time])])]"

definition station_fields :: "(string \<times> pyval) list" where
  "station_fields =
     [(''Code'', PStr ''HT''), (''Type'', PStr ''knooppuntIntercitystation''),
      (''Namen'', PDict [(''Kort'', PStr ''Den Bosch''), (''Middel'', PStr ''s-Hertogenbosch''),
                         (''Lang'', PStr ''s-Hertogenbosch'')]),
      (''Land'', PStr ''NL''), (''UICCode'', PStr ''8400319''),
      (''Lat'', PStr ''51.69048''), (''Lon'', PStr ''5.29362'')]"

definition station_empty_synonyms :: pyval where
  "station_empty_synonyms = PDict (station_fields @ [(''Synoniemen'', PNone)])"

definition station_two_synonyms :: pyval where
  "station_two_synonyms =
     PDict (station_fields
            @ [(''Synoniemen'', PDict [(''Synoniem'', PList [PStr ''Hertogenbosch'',
                                                              PStr ''Den Bosch''])])])"

definition station_without_synonyms_key :: pyval where
  "station_without_synonyms_key = PDict station_fields"

definition stations_document :: pyval where
  "stations_document =
     PDict [(''Stations'',
             PDict [(''Station'', PList [station_empty_synonyms, station_two_synonyms])])]"

definition trip_part :: pyval where
  "trip_part =
     PDict [(''@reisSoort'', PStr ''TRAIN''), (''Vervoerder'', PStr ''NS''),
            (''VervoerType'', PStr ''Intercity''), (''RitNummer'', PStr ''4116''),
            (''Status'', PStr ''VOLGENS-PLAN'')]"

definition trip_times :: "(string \<times> pyval) list" where
  "trip_times =
     [(''GeplandeVertrekTijd'', PStr ''2024-03-01T10:15:00+0100''),
      (''ActueleVertrekTijd'', PStr ''2024-03-01T10:20:00+0100''),
      (''GeplandeAankomstTijd'', PStr ''2024-03-01T10:49:00+0100''),
      (''ActueleAankomstTijd'', PStr ''2024-03-01T10:52:00+0100'')]"

definition trip_head :: "string \<Rightarrow> (string \<times> pyval) list" where
  "trip_head st =
     [(''AantalOverstappen'', PStr ''0''), (''ActueleReisTijd'', PStr ''0:32''),
      (''Optimaal'', PStr ''true''), (''Status'', PStr st)]"

definition trip_delayed :: pyval where
  "trip_delayed =
     PDict (trip_head ''VERTRAAGD'' @ [(''GeplandeReisTijd'', PStr ''0:34'')] @ trip_times
            @ [(''ReisDeel'', trip_part)])"

definition trip_without_planned_time :: pyval where
  "trip_without_planned_time =
     PDict (trip_head ''NIET-MOGELIJK'' @ trip_times @ [(''ReisDeel'', trip_part)])"

definition trip_status_cancelled :: pyval where
  "trip_status_cancelled =
     PDict (trip_head ''GEANNULEERD'' @ [(''GeplandeReisTijd'', PStr ''0:34'')] @ trip_times
            @ [(''ReisDeel'', trip_part)])"

definition trip_without_actual_departure :: pyval where
  "trip_without_actual_departure =
     PDict (trip_head ''VOLGENS-PLAN''
            @ [(''GeplandeReisTijd'', PStr ''0:34''),
               (''GeplandeVertrekTijd'', PStr ''2024-03-01T10:15:00+0100''),
               (''GeplandeAankomstTijd'', PStr ''2024-03-01T10:49:00+0100''),
               (''ActueleAankomstTijd'', PStr ''2024-03-01T10:52:00+0100''),
               (''ReisDeel'', trip_part)])"

definition trip_without_parts :: pyval where
  "trip_without_parts =
     PDict (trip_head ''VOLGENS-PLAN'' @ [(''GeplandeReisTijd'', PStr ''0:34'')] @ trip_times)"

definition trips_document :: pyval where
  "trips_document =
     PDict [(''ReisMogelijkheden'',
             PDict [(''ReisMogelijkheid'', PList [trip_delayed, trip_without_planned_time])])]"

definition fault_document :: pyval where
  "fault_document = PDict [(''error'', PDict [(''message'', PStr ''authentication failed'')])]"


text \<open>The records the constructors build from the samples above.\<close>

definition departure_built :: "string \<Rightarrow> string \<Rightarrow> bool \<Rightarrow> pyval option \<Rightarrow> pyval option \<Rightarrow> departure" where
  "departure_built rit tijd flag dl tx =
     \<lparr> trip_number = PStr rit, departure_time = PStr tijd,
       has_delay = flag, departure_delay = dl, departure_delay_text = tx,
       departure_platform = PDict [(''@wijziging'', PStr ''false''), (''#text'', PStr ''5'')],
       departure_platform_changed = PStr ''false'',
       destination = PStr ''Utrecht Centraal'', route_text = PNone,
       train_type = PList [PStr ''TreinSoort''], carrier = PList [PStr ''Vervoerder''],
       journey_tip = PList [PStr ''ReisTip''], remarks = PList [PStr ''Opmerkingen''] \<rparr>"

definition departure_delayed_built :: departure where
  "departure_delayed_built =
     departure_built ''4116'' ''2024-03-01T10:15:00+0100'' True
       (Some (PStr ''PT5M'')) (Some (PStr ''+5 min''))"

definition departure_on_time_built :: departure where
  "departure_on_time_built =
     departure_built ''4118'' ''2024-03-01T10:45:00+0100'' False None None"

definition departure_delay_without_text_built :: departure where
  "departure_delay_without_text_built =
     departure_built ''4120'' ''2024-03-01T11:15:00+0100'' False (Some (PStr ''PT5M'')) None"


definition station_empty_synonyms_built :: station where
  "station_empty_synonyms_built =
     \<lparr> code = PStr ''HT'', uic_code = PStr ''8400319'',
       stationtype = PStr ''knooppuntIntercitystation'',
       names = [(''short'', PStr ''Den Bosch''), (''middle'', PStr ''s-Hertogenbosch''),
                (''long'', PStr ''s-Hertogenbosch'')],
       country = PStr ''NL'', lat = PStr ''51.69048'', lon = PStr ''5.29362'',
       synonyms = [] \<rparr>"

definition trip_part_cancelled :: pyval where
  "trip_part_cancelled =
     PDict [(''@reisSoort'', PStr ''TRAIN''), (''Vervoerder'', PStr ''NS''),
            (''VervoerType'', PStr ''Sprinter''), (''RitNummer'', PStr ''5635''),
            (''Status'', PStr ''GEANNULEERD'')]"

definition remark_grave :: pyval where
  "remark_grave =
     PDict [(''Id'', PStr ''2024_htn_1''), (''Ernstig'', PStr ''true''),
            (''Text'', PStr ''Geen treinverkeer'')]"

definition remark_light :: pyval where
  "remark_light =
     PDict [(''Id'', PStr ''2024_ut_7''), (''Ernstig'', PStr ''false''),
            (''Text'', PStr ''Let op: gewijzigd vertrekspoor'')]"

definition trip_with_lists :: pyval where
  "trip_with_lists =
     PDict (trip_head ''VERTRAAGD'' @ [(''GeplandeReisTijd'', PStr ''0:34'')] @ trip_times
            @ [(''ReisDeel'', PList [trip_part, trip_part_cancelled]),
               (''Melding'', PList [remark_grave, remark_light])])"

definition trip_single_remark :: pyval where
  "trip_single_remark =
     PDict (trip_head ''VERTRAAGD'' @ [(''GeplandeReisTijd'', PStr ''0:34'')] @ trip_times
            @ [(''ReisDeel'', trip_part), (''Melding'', remark_grave)])"

definition sample_time :: "int \<Rightarrow> int \<Rightarrow> datetime" where
  "sample_time H M =
     \<lparr> year = 2024, month = 3, day = 1, hour = H, minute = M, second = 0,
       utcoffset = Some 60 \<rparr>"

definition trip_part_built :: trip_subpart where
  "trip_part_built =
     \<lparr> trip_type = PStr ''TRAIN'', transporter = PStr ''NS'',
       transport_type = PStr ''Intercity'', journey_id = PStr ''4116'',
       part_status = PStr ''VOLGENS-PLAN'', part_going = True \<rparr>"

definition trip_part_cancelled_built :: trip_subpart where
  "trip_part_cancelled_built =
     \<lparr> trip_type = PStr ''TRAIN'', transporter = PStr ''NS'',
       transport_type = PStr ''Sprinter'', journey_id = PStr ''5635'',
       part_status = PStr ''GEANNULEERD'', part_going = False \<rparr>"

definition remark_grave_built :: trip_remark where
  "remark_grave_built =
     \<lparr> remark_id = PStr ''2024_htn_1'', is_grave = True,
       remark_text = PStr ''Geen treinverkeer'' \<rparr>"

definition remark_light_built :: trip_remark where
  "remark_light_built =
     \<lparr> remark_id = PStr ''2024_ut_7'', is_grave = False,
       remark_text = PStr ''Let op: gewijzigd vertrekspoor'' \<rparr>"

definition trip_built ::
  "string \<Rightarrow> pyval \<Rightarrow> bool \<Rightarrow> datetime option \<Rightarrow> trip_subpart list \<Rightarrow> trip_remark list \<Rightarrow> trip" where
  "trip_built st planned flag actual_departure parts rems =
     \<lparr> status = PStr st, nr_transfers = PStr ''0'',
       travel_time_planned = planned, going = flag,
       travel_time_actual = PStr ''0:32'', is_optimal = True,
       departure_time_planned = Some (sample_time 10 15),
       departure_time_actual = actual_departure,
       arrival_time_planned = Some (sample_time 10 49),
       arrival_time_actual = Some (sample_time 10 52),
       trip_parts = parts, trip_remarks = rems \<rparr>"

definition trip_delayed_built :: trip where
  "trip_delayed_built =
     trip_built ''VERTRAAGD'' (PStr ''0:34'') True (Some (sample_time 10 20))
       [trip_part_built] []"

definition trip_without_planned_time_built :: trip where
  "trip_without_planned_time_built =
     trip_built ''NIET-MOGELIJK'' PNone False (Some (sample_time 10 20)) [trip_part_built] []"

definition trip_status_cancelled_built :: trip where
  "trip_status_cancelled_built =
     trip_built ''GEANNULEERD'' (PStr ''0:34'') True (Some (sample_time 10 20))
       [trip_part_built] []"

definition trip_without_actual_departure_built :: trip where
  "trip_without_actual_departure_built =
     trip_built ''VOLGENS-PLAN'' (PStr ''0:34'') True None [trip_part_built] []"

definition trip_with_lists_built :: trip where
  "trip_with_lists_built =
     trip_built ''VERTRAAGD'' (PStr ''0:34'') True (Some (sample_time 10 20))
       [trip_part_built, trip_part_cancelled_built] [remark_grave_built, remark_light_built]"

definition trip_single_remark_built :: trip where
  "trip_single_remark_built =
     trip_built ''VERTRAAGD'' (PStr ''0:34'') True (Some (sample_time 10 20))
       [trip_part_built] [remark_grave_built]"

definition trip_offset_of_a_day :: pyval where
  "trip_offset_of_a_day =
     PDict (trip_head ''VERTRAAGD''
            @ [(''GeplandeReisTijd'', PStr ''0:34''),
               (''GeplandeVertrekTijd'', PStr ''2024-03-01T10:15:00+0100''),
               (''ActueleVertrekTijd'', PStr ''2024-03-01T10:20:00+2400''),
               (''GeplandeAankomstTijd'', PStr ''2024-03-01T10:49:00+0100''),
               (''ActueleAankomstTijd'', PStr ''2024-03-01T10:52:00+0100''),
               (''ReisDeel'', trip_part)])"

definition time_offset_of_a_day :: datetime where
  "time_offset_of_a_day =
     \<lparr> year = 2024, month = 3, day = 1, hour = 10, minute = 20, second = 0,
       utcoffset = Some (24 * 60) \<rparr>"

definition trip_offset_of_a_day_built :: trip where
  "trip_offset_of_a_day_built =
     trip_built ''VERTRAAGD'' (PStr ''0:34'') True (Some time_offset_of_a_day)
       [trip_part_built] []"

text \<open>
  A function of the type of \<^verbatim>\<open>json.dumps\<close> for evaluating the samples: it
  writes the keys of a mapping in the listed order and escapes quotes and
  backslashes. The theorems on the JSON projection hold for every such function.
\<close>

definition join :: "string \<Rightarrow> string list \<Rightarrow> string" where
  "join sep xs = (case xs of [] \<Rightarrow> [] | y # ys \<Rightarrow> y @ concat (map (\<lambda>z. sep @ z) ys))"

definition quoted :: "string \<Rightarrow> string" where
  "quoted s =
     [CHR 0x22]
     @ concat (map (\<lambda>c. if c = CHR 0x22 \<or> c = CHR 0x5C then [CHR 0x5C, c] else [c]) s)
     @ [CHR 0x22]"

fun render_json :: "pyval \<Rightarrow> string" where
  "render_json PNone = ''null''"
| "render_json (PBool b) = (if b then ''true'' else ''false'')"
| "render_json (PStr s) = quoted s"
| "render_json (PList xs) = ''['' @ join '', '' (map render_json xs) @ '']''"
| "render_json (PDict d) =
     ''{'' @ join '', '' (map (\<lambda>kv. quoted (fst kv) @ '': '' @ render_json (snd kv)) d) @ ''}''"


section \<open>Basic facts\<close>

lemma getitem_Inr_iff:
  "getitem v k = Inr x \<longleftrightarrow> (\<exists>d. v = PDict d \<and> map_of d k = Some x)"
  by (cases v) (auto split: option.splits)

lemma getitem_KeyError_iff:
  "getitem v k = Inl KeyError \<longleftrightarrow> (\<exists>d. v = PDict d \<and> map_of d k = None)"
  by (cases v) (auto split: option.splits)

lemma bnd_Inr_iff: "bnd m f = Inr y \<longleftrightarrow> (\<exists>x. m = Inr x \<and> f x = Inr y)"
  by (cases m) (simp_all add: bnd_def)

lemma bnd_Inl [simp]: "bnd (Inl e) f = Inl e"
  by (simp add: bnd_def)

lemma bnd_Inr [simp]: "bnd (Inr x) f = f x"
  by (simp add: bnd_def)

lemmas departure_samples =
  departure_common_def departure_delayed_def departure_on_time_def
  departure_delay_without_text_def departure_built_def departure_delayed_built_def
  departure_on_time_built_def departure_delay_without_text_built_def

lemma Departure_init_delayed: "Departure_init departure_delayed = Inr departure_delayed_built"
  by (simp add: departure_samples Departure_init_def read_delay_def except_def)

lemma Departure_init_on_time: "Departure_init departure_on_time = Inr departure_on_time_built"
  by (simp add: departure_samples Departure_init_def read_delay_def except_def)

lemma Departure_init_delay_without_text:
  "Departure_init departure_delay_without_text = Inr departure_delay_without_text_built"
  by (simp add: departure_samples Departure_init_def read_delay_def except_def)


lemma Station_init_empty_synonyms:
  "Station_init station_empty_synonyms = Inr station_empty_synonyms_built"
  by code_simp

lemma Trip_init_delayed: "Trip_init trip_delayed = Inr trip_delayed_built"
  by code_simp

lemma Trip_init_without_planned_time:
  "Trip_init trip_without_planned_time = Inr trip_without_planned_time_built"
  by code_simp

lemma Trip_init_status_cancelled:
  "Trip_init trip_status_cancelled = Inr trip_status_cancelled_built"
  by code_simp

lemma Trip_init_without_actual_departure:
  "Trip_init trip_without_actual_departure = Inr trip_without_actual_departure_built"
  by code_simp

lemma Trip_init_with_lists: "Trip_init trip_with_lists = Inr trip_with_lists_built"
  by code_simp

lemma Trip_init_single_remark: "Trip_init trip_single_remark = Inr trip_single_remark_built"
  by code_simp

lemmas trip_samples =
  trip_head_def trip_times_def trip_part_def trip_part_cancelled_def remark_grave_def
  remark_light_def trip_delayed_def trip_without_planned_time_def trip_status_cancelled_def
  trip_without_actual_departure_def trip_without_parts_def trip_with_lists_def
  trip_single_remark_def

lemmas trip_records =
  trip_built_def trip_delayed_built_def trip_without_planned_time_built_def
  trip_status_cancelled_built_def trip_without_actual_departure_built_def
  trip_with_lists_built_def trip_single_remark_built_def

section \<open>Departure: the delay flag and the delay accessor\<close>

text \<open>
  C7, as the code has it. The constructor reads \<^verbatim>\<open>VertrekVertraging\<close> and
  \<^verbatim>\<open>VertrekVertragingTekst\<close> inside one \<^verbatim>\<open>try\<close> block. Whenever a
  departure is built: if the element has no \<^verbatim>\<open>VertrekVertraging\<close>, the flag
  \<open>has_delay\<close> is false and \<open>delay\<close> returns \<^verbatim>\<open>None\<close>; if the element has
  both fields, the flag is true and \<open>delay\<close> returns the value of
  \<^verbatim>\<open>VertrekVertraging\<close>.
\<close>

theorem Departure_delay_C7:
  assumes "Departure_init departure_dict = Inr dep"
  shows "(getitem departure_dict ''VertrekVertraging'' = Inl KeyError
            \<longrightarrow> \<not> has_delay dep \<and> Departure_delay dep = Inr PNone)
       \<and> (\<forall>v t. getitem departure_dict ''VertrekVertraging'' = Inr v
                \<and> getitem departure_dict ''VertrekVertragingTekst'' = Inr t
            \<longrightarrow> has_delay dep \<and> Departure_delay dep = Inr v)"
  using assms
  by (auto simp: Departure_init_def bnd_def read_delay_def except_def Departure_delay_def
      split: sum.splits if_splits)

theorem Departure_delay_C7_witness:
  "Departure_init departure_on_time = Inr departure_on_time_built
   \<and> getitem departure_on_time ''VertrekVertraging'' = Inl KeyError
   \<and> \<not> has_delay departure_on_time_built
   \<and> Departure_delay departure_on_time_built = Inr PNone
   \<and> Departure_init departure_delayed = Inr departure_delayed_built
   \<and> getitem departure_delayed ''VertrekVertraging'' = Inr (PStr ''PT5M'')
   \<and> getitem departure_delayed ''VertrekVertragingTekst'' = Inr (PStr ''+5 min'')
   \<and> has_delay departure_delayed_built
   \<and> Departure_delay departure_delayed_built = Inr (PStr ''PT5M'')"
proof -
  have k: "getitem departure_on_time ''VertrekVertraging'' = Inl KeyError"
    by (simp add: departure_samples)
  have v: "getitem departure_delayed ''VertrekVertraging'' = Inr (PStr ''PT5M'')"
    by (simp add: departure_samples)
  have t: "getitem departure_delayed ''VertrekVertragingTekst'' = Inr (PStr ''+5 min'')"
    by (simp add: departure_samples)
  from Departure_delay_C7 [OF Departure_init_on_time] k
  have a: "\<not> has_delay departure_on_time_built
           \<and> Departure_delay departure_on_time_built = Inr PNone"
    by blast
  from Departure_delay_C7 [OF Departure_init_delayed] v t
  have b: "has_delay departure_delayed_built
           \<and> Departure_delay departure_delayed_built = Inr (PStr ''PT5M'')"
    by blast
  from a b k v t Departure_init_on_time Departure_init_delayed show ?thesis
    by simp
qed

text \<open>
  C7 as the specification states it fails on an element that has
  \<^verbatim>\<open>VertrekVertraging\<close> but no \<^verbatim>\<open>VertrekVertragingTekst\<close>: the second
  read raises, the handler clears the flag, and \<open>delay\<close> returns \<^verbatim>\<open>None\<close>
  although the field is present.
\<close>

theorem Departure_delay_C7_counterexample:
  "getitem departure_delay_without_text ''VertrekVertraging'' = Inr (PStr ''PT5M'')
   \<and> Departure_init departure_delay_without_text = Inr departure_delay_without_text_built
   \<and> \<not> has_delay departure_delay_without_text_built
   \<and> Departure_delay departure_delay_without_text_built = Inr PNone"
  by (simp add: Departure_init_delay_without_text)
     (simp add: departure_samples Departure_delay_def)


section \<open>Departure: train type, carrier, journey tip, remarks\<close>

lemma Departure_init_literals:
  assumes "Departure_init departure_dict = Inr dep"
  shows "train_type dep = PList [PStr ''TreinSoort'']"
    and "carrier dep = PList [PStr ''Vervoerder'']"
    and "journey_tip dep = PList [PStr ''ReisTip'']"
    and "remarks dep = PList [PStr ''Opmerkingen'']"
  using assms
  by (auto simp: Departure_init_def bnd_Inr_iff except_def)

text \<open>
  C2 at a departure element whose \<^verbatim>\<open>TreinSoort\<close> is \<^verbatim>\<open>Intercity\<close> and
  whose \<^verbatim>\<open>Vervoerder\<close> is \<^verbatim>\<open>NS\<close>: the constructor stores the list
  literals \<^verbatim>\<open>['TreinSoort']\<close>, \<^verbatim>\<open>['Vervoerder']\<close>, \<^verbatim>\<open>['ReisTip']\<close>
  and \<^verbatim>\<open>['Opmerkingen']\<close>, not the fields of the element and not the defaults
  for the two missing optional fields.
\<close>

theorem Departure_fields_C2:
  "getitem departure_delayed ''TreinSoort'' = Inr (PStr ''Intercity'')
   \<and> getitem departure_delayed ''Vervoerder'' = Inr (PStr ''NS'')
   \<and> getitem departure_delayed ''ReisTip'' = Inl KeyError
   \<and> getitem departure_delayed ''Opmerkingen'' = Inl KeyError
   \<and> Departure_init departure_delayed = Inr departure_delayed_built
   \<and> train_type departure_delayed_built = PList [PStr ''TreinSoort'']
   \<and> carrier departure_delayed_built = PList [PStr ''Vervoerder'']
   \<and> journey_tip departure_delayed_built = PList [PStr ''ReisTip'']
   \<and> remarks departure_delayed_built = PList [PStr ''Opmerkingen'']"
  by (simp add: Departure_init_delayed) (simp add: departure_samples)



section \<open>Station: synonyms\<close>

text \<open>
  C4, as the code has it. The handler of \<^verbatim>\<open>Station.__init__\<close> catches
  \<^verbatim>\<open>TypeError\<close>. For a station element whose required fields can be read and
  whose \<^verbatim>\<open>Synoniemen\<close> entry is present but is not a mapping (an empty
  element decoded as \<^verbatim>\<open>None\<close>, text, or a sequence), or is a mapping whose
  \<^verbatim>\<open>Synoniem\<close> child is empty, construction succeeds and the synonym
  sequence is empty.
\<close>

theorem Station_synonyms_C4:
  assumes "getitem stat_dict ''Code'' = Inr c" and "getitem stat_dict ''UICCode'' = Inr u"
    and "getitem stat_dict ''Type'' = Inr ty" and "getitem stat_dict ''Namen'' = Inr n"
    and "getitem n ''Kort'' = Inr k" and "getitem n ''Middel'' = Inr m"
    and "getitem n ''Lang'' = Inr l" and "getitem stat_dict ''Land'' = Inr la"
    and "getitem stat_dict ''Lat'' = Inr y" and "getitem stat_dict ''Lon'' = Inr x"
    and "getitem stat_dict ''Synoniemen'' = Inr syn"
    and "\<not> is_OrderedDict syn \<or> getitem syn ''Synoniem'' = Inr PNone"
  shows "Station_init stat_dict =
           Inr \<lparr> code = c, uic_code = u, stationtype = ty,
                 names = [(''short'', k), (''middle'', m), (''long'', l)],
                 country = la, lat = y, lon = x, synonyms = [] \<rparr>"
proof -
  have "except TypeError (read_synonyms stat_dict) [] = Inr []"
    using assms(11,12)
    by (cases syn) (auto simp: read_synonyms_def except_def is_OrderedDict_def is_unicode_def)
  with assms(1-10) show ?thesis
    by (simp add: Station_init_def)
qed

theorem Station_synonyms_C4_witness:
  "getitem station_empty_synonyms ''Synoniemen'' = Inr PNone
   \<and> \<not> is_OrderedDict PNone
   \<and> Station_init station_empty_synonyms = Inr station_empty_synonyms_built
   \<and> synonyms station_empty_synonyms_built = []"
proof -
  let ?n = "PDict [(''Kort'', PStr ''Den Bosch''), (''Middel'', PStr ''s-Hertogenbosch''),
                   (''Lang'', PStr ''s-Hertogenbosch'')]"
  have s: "getitem station_empty_synonyms ''Synoniemen'' = Inr PNone"
    by (simp add: station_empty_synonyms_def station_fields_def)
  have d: "\<not> is_OrderedDict PNone \<or> getitem PNone ''Synoniem'' = Inr PNone"
    by (simp add: is_OrderedDict_def)
  have "Station_init station_empty_synonyms = Inr station_empty_synonyms_built"
    unfolding station_empty_synonyms_built_def
    by (rule Station_synonyms_C4 [where n = ?n and syn = PNone, OF _ _ _ _ _ _ _ _ _ _ s d])
       (simp_all add: station_empty_synonyms_def station_fields_def)
  then show ?thesis
    using s by (simp add: is_OrderedDict_def station_empty_synonyms_built_def)
qed

text \<open>
  C4 as the specification states it fails when the \<^verbatim>\<open>Synoniemen\<close> key is
  absent: the lookup raises \<^verbatim>\<open>KeyError\<close>, which the handler does not catch.
\<close>

theorem Station_synonyms_C4_counterexample:
  "getitem station_without_synonyms_key ''Synoniemen'' = Inl KeyError
   \<and> Station_init station_without_synonyms_key = Inl KeyError"
  by (simp add: station_without_synonyms_key_def station_fields_def Station_init_def
      read_synonyms_def except_def)


section \<open>Trip: the going flag\<close>

text \<open>
  C5, as the code has it. \<^verbatim>\<open>Trip.__init__\<close> never inspects
  \<^verbatim>\<open>Status\<close>: whenever a trip is built, \<open>going\<close> is false and
  \<open>travel_time_planned\<close> is \<^verbatim>\<open>None\<close> if the element lacks
  \<^verbatim>\<open>GeplandeReisTijd\<close>, and \<open>going\<close> is true with the planned time stored
  if the element has it; \<open>travel_time_actual\<close> and \<open>status\<close> are the element's
  \<^verbatim>\<open>ActueleReisTijd\<close> and \<^verbatim>\<open>Status\<close> in both cases.
\<close>

theorem Trip_going_C5:
  assumes "Trip_init trip_dict = Inr t"
  shows "(getitem trip_dict ''GeplandeReisTijd'' = Inl KeyError
            \<longrightarrow> \<not> going t \<and> travel_time_planned t = PNone)
       \<and> (\<forall>v. getitem trip_dict ''GeplandeReisTijd'' = Inr v
            \<longrightarrow> going t \<and> travel_time_planned t = v)
       \<and> getitem trip_dict ''ActueleReisTijd'' = Inr (travel_time_actual t)
       \<and> getitem trip_dict ''Status'' = Inr (status t)"
  using assms
  by (auto simp: Trip_init_def bnd_Inr_iff read_planned_def split: sum.splits if_splits)

theorem Trip_going_C5_witness:
  "Trip_init trip_without_planned_time = Inr trip_without_planned_time_built
   \<and> getitem trip_without_planned_time ''GeplandeReisTijd'' = Inl KeyError
   \<and> \<not> going trip_without_planned_time_built
   \<and> travel_time_planned trip_without_planned_time_built = PNone
   \<and> travel_time_actual trip_without_planned_time_built = PStr ''0:32''
   \<and> Trip_init trip_delayed = Inr trip_delayed_built
   \<and> getitem trip_delayed ''GeplandeReisTijd'' = Inr (PStr ''0:34'')
   \<and> going trip_delayed_built
   \<and> travel_time_planned trip_delayed_built = PStr ''0:34''"
proof -
  have k: "getitem trip_without_planned_time ''GeplandeReisTijd'' = Inl KeyError"
    by (simp add: trip_samples)
  have v: "getitem trip_delayed ''GeplandeReisTijd'' = Inr (PStr ''0:34'')"
    by (simp add: trip_samples)
  from Trip_going_C5 [OF Trip_init_without_planned_time] k
  have a: "\<not> going trip_without_planned_time_built
           \<and> travel_time_planned trip_without_planned_time_built = PNone"
    by blast
  from Trip_going_C5 [OF Trip_init_delayed] v
  have b: "going trip_delayed_built \<and> travel_time_planned trip_delayed_built = PStr ''0:34''"
    by blast
  have c: "travel_time_actual trip_without_planned_time_built = PStr ''0:32''"
    by (simp add: trip_records)
  from a b c k v Trip_init_without_planned_time Trip_init_delayed show ?thesis
    by simp
qed

text \<open>
  C5 as the specification states it fails on a trip whose \<^verbatim>\<open>Status\<close> is the
  cancellation code but which carries a \<^verbatim>\<open>GeplandeReisTijd\<close>: \<open>going\<close>
  is true and the planned travel time is present.
\<close>

theorem Trip_going_C5_counterexample:
  "getitem trip_status_cancelled ''Status'' = Inr (PStr ''GEANNULEERD'')
   \<and> Trip_init trip_status_cancelled = Inr trip_status_cancelled_built
   \<and> going trip_status_cancelled_built
   \<and> travel_time_planned trip_status_cancelled_built = PStr ''0:34''"
  by (simp add: Trip_init_status_cancelled) (simp add: trip_samples trip_records)



section \<open>Trip: single element or list\<close>

text \<open>
  C9, as the code has it. Whenever a trip is built: a \<^verbatim>\<open>ReisDeel\<close> that is
  a single mapping gives a one-element \<open>trip_parts\<close>, a \<^verbatim>\<open>ReisDeel\<close>
  that is a sequence is mapped element by element in order; a
  \<^verbatim>\<open>Melding\<close> that is a single mapping gives a one-element
  \<open>trip_remarks\<close>, a sequence is mapped element by element (in both cases
  provided the remarks themselves can be built), and a missing
  \<^verbatim>\<open>Melding\<close> gives an empty \<open>trip_remarks\<close>. \<^verbatim>\<open>ReisDeel\<close> has no
  default: without it no trip is built.
\<close>

theorem Trip_children_C9:
  "(Trip_init trip_dict = Inr t \<longrightarrow>
      (\<forall>p. getitem trip_dict ''ReisDeel'' = Inr (PDict p)
          \<longrightarrow> (\<exists>sp. TripSubpart_init (PDict p) = Inr sp \<and> trip_parts t = [sp]))
    \<and> (\<forall>ps. getitem trip_dict ''ReisDeel'' = Inr (PList ps)
          \<longrightarrow> map_each TripSubpart_init ps = Inr (trip_parts t))
    \<and> (\<forall>r rm. getitem trip_dict ''Melding'' = Inr (PDict r)
               \<and> TripRemark_init (PDict r) = Inr rm
          \<longrightarrow> trip_remarks t = [rm])
    \<and> (\<forall>rs rms. getitem trip_dict ''Melding'' = Inr (PList rs)
               \<and> map_each TripRemark_init rs = Inr rms
          \<longrightarrow> trip_remarks t = rms)
    \<and> (getitem trip_dict ''Melding'' = Inl KeyError \<longrightarrow> trip_remarks t = []))
   \<and> (getitem trip_dict ''ReisDeel'' = Inl KeyError \<longrightarrow> Trip_init trip_dict = Inl KeyError)"
proof (intro conjI impI)
  assume "getitem trip_dict ''ReisDeel'' = Inl KeyError"
  then show "Trip_init trip_dict = Inl KeyError"
    by (auto simp: Trip_init_def bnd_def read_parts_def read_planned_def getitem_KeyError_iff
        split: sum.splits option.splits)
qed (auto simp: Trip_init_def bnd_Inr_iff read_parts_def read_remarks_def wrap_single_def
      is_OrderedDict_def except_def split: sum.splits if_splits)

theorem Trip_children_C9_witness:
  "Trip_init trip_delayed = Inr trip_delayed_built
   \<and> getitem trip_delayed ''ReisDeel'' = Inr trip_part
   \<and> TripSubpart_init trip_part = Inr trip_part_built
   \<and> trip_parts trip_delayed_built = [trip_part_built]
   \<and> getitem trip_delayed ''Melding'' = Inl KeyError
   \<and> trip_remarks trip_delayed_built = []
   \<and> Trip_init trip_with_lists = Inr trip_with_lists_built
   \<and> getitem trip_with_lists ''ReisDeel'' = Inr (PList [trip_part, trip_part_cancelled])
   \<and> trip_parts trip_with_lists_built = [trip_part_built, trip_part_cancelled_built]
   \<and> getitem trip_with_lists ''Melding'' = Inr (PList [remark_grave, remark_light])
   \<and> trip_remarks trip_with_lists_built = [remark_grave_built, remark_light_built]
   \<and> Trip_init trip_single_remark = Inr trip_single_remark_built
   \<and> getitem trip_single_remark ''Melding'' = Inr remark_grave
   \<and> trip_remarks trip_single_remark_built = [remark_grave_built]
   \<and> getitem trip_without_parts ''ReisDeel'' = Inl KeyError
   \<and> Trip_init trip_without_parts = Inl KeyError"
proof -
  have p1: "getitem trip_delayed ''ReisDeel'' = Inr trip_part"
    and m1: "getitem trip_delayed ''Melding'' = Inl KeyError"
    and p2: "getitem trip_with_lists ''ReisDeel'' = Inr (PList [trip_part, trip_part_cancelled])"
    and m2: "getitem trip_with_lists ''Melding'' = Inr (PList [remark_grave, remark_light])"
    and m3: "getitem trip_single_remark ''Melding'' = Inr remark_grave"
    and p4: "getitem trip_without_parts ''ReisDeel'' = Inl KeyError"
    by (simp_all add: trip_head_def trip_times_def trip_delayed_def trip_with_lists_def
        trip_single_remark_def trip_without_parts_def)
  have sp: "TripSubpart_init trip_part = Inr trip_part_built"
    and sc: "TripSubpart_init trip_part_cancelled = Inr trip_part_cancelled_built"
    and rg: "TripRemark_init remark_grave = Inr remark_grave_built"
    and rl: "TripRemark_init remark_light = Inr remark_light_built"
    by (simp_all add: TripSubpart_init_def TripRemark_init_def trip_part_def
        trip_part_cancelled_def remark_grave_def remark_light_def trip_part_built_def
        trip_part_cancelled_built_def remark_grave_built_def remark_light_built_def)
  have a: "trip_parts trip_delayed_built = [trip_part_built]"
    using Trip_children_C9 [of trip_delayed trip_delayed_built] Trip_init_delayed p1 sp
    by (auto simp: trip_part_def)
  have b: "trip_remarks trip_delayed_built = []"
    using Trip_children_C9 [of trip_delayed trip_delayed_built] Trip_init_delayed m1 by blast
  have "map_each TripSubpart_init [trip_part, trip_part_cancelled]
          = Inr (trip_parts trip_with_lists_built)"
    using Trip_children_C9 [of trip_with_lists trip_with_lists_built] Trip_init_with_lists p2 by blast
  then have c: "trip_parts trip_with_lists_built = [trip_part_built, trip_part_cancelled_built]"
    by (simp add: sp sc)
  have "map_each TripRemark_init [remark_grave, remark_light]
          = Inr [remark_grave_built, remark_light_built]"
    by (simp add: rg rl)
  then have d: "trip_remarks trip_with_lists_built = [remark_grave_built, remark_light_built]"
    using Trip_children_C9 [of trip_with_lists trip_with_lists_built] Trip_init_with_lists m2 by blast
  have e: "trip_remarks trip_single_remark_built = [remark_grave_built]"
    using Trip_children_C9 [of trip_single_remark trip_single_remark_built] Trip_init_single_remark m3 rg
    by (auto simp: remark_grave_def)
  have f: "Trip_init trip_without_parts = Inl KeyError"
    using Trip_children_C9 [of trip_without_parts] p4 by blast
  from a b c d e f p1 m1 p2 m2 m3 p4 sp
    Trip_init_delayed Trip_init_with_lists Trip_init_single_remark
  show ?thesis by simp
qed

text \<open>
  C9 as the specification states it fails for an absent \<^verbatim>\<open>ReisDeel\<close>: the
  lookup raises \<^verbatim>\<open>KeyError\<close> instead of giving an empty sequence.
\<close>

theorem Trip_children_C9_counterexample:
  "getitem trip_without_parts ''ReisDeel'' = Inl KeyError
   \<and> Trip_init trip_without_parts = Inl KeyError"
  by code_simp


section \<open>\<^verbatim>\<open>parse_trips\<close> on a document without \<^verbatim>\<open>ReisMogelijkheden\<close>\<close>

text \<open>
  C6, as the code has it. The module defines no exception class. When the
  decoded document is a mapping without the key \<^verbatim>\<open>ReisMogelijkheden\<close>, the
  body of \<^verbatim>\<open>parse_trips\<close> fails with the \<^verbatim>\<open>KeyError\<close> of the lookup.
\<close>

theorem parse_trips_C6:
  assumes "getitem obj ''ReisMogelijkheden'' = Inl KeyError"
  shows "parse_trips dumps obj = Inl KeyError"
  using assms by (simp add: parse_trips_def)

theorem parse_trips_C6_witness:
  "getitem stations_document ''ReisMogelijkheden'' = Inl KeyError
   \<and> parse_trips render_json stations_document = Inl KeyError"
proof -
  have k: "getitem stations_document ''ReisMogelijkheden'' = Inl KeyError"
    by (simp add: stations_document_def)
  from parse_trips_C6 [OF k] k show ?thesis
    by simp
qed

text \<open>
  C6 as the specification states it fails on a fault document: the failure is a
  \<^verbatim>\<open>KeyError\<close>, not an error kind of the module's own.
\<close>

theorem parse_trips_C6_counterexample:
  "getitem fault_document ''ReisMogelijkheden'' = Inl KeyError
   \<and> parse_trips render_json fault_document = Inl KeyError"
  by (simp add: fault_document_def parse_trips_def)


section \<open>What the parse methods return\<close>

lemma parse_stations_returns_None:
  "parse_stations obj = Inr r \<Longrightarrow> r = None"
  by (auto simp: parse_stations_def bnd_Inr_iff)

lemma parse_trips_returns_None:
  "parse_trips dumps obj = Inr r \<Longrightarrow> r = None"
  by (auto simp: parse_trips_def bnd_Inr_iff)

lemma Departure_delay_defined:
  assumes "Departure_init d = Inr dep"
  shows "\<exists>v. Departure_delay dep = Inr v"
  using assms
  by (auto simp: Departure_init_def bnd_Inr_iff read_delay_def Departure_delay_def
      split: sum.splits if_splits)

lemma map_each_departures:
  assumes "map_each Departure_init elems = Inr ds"
  shows "map_each (\<lambda>departure. bnd (Departure_init departure) (\<lambda>newdep.
            bnd (Departure_delay newdep) (\<lambda>_. Inr newdep))) elems = Inr ds"
  using assms
proof (induction elems arbitrary: ds)
  case Nil
  then show ?case by simp
next
  case (Cons e es)
  from Cons.prems obtain d ds' where d: "Departure_init e = Inr d"
    and ds': "map_each Departure_init es = Inr ds'" and eq: "ds = d # ds'"
    by (auto simp: bnd_Inr_iff)
  from Departure_delay_defined [OF d] obtain v where "Departure_delay d = Inr v" ..
  with d Cons.IH [OF ds'] eq show ?case by simp
qed

lemma parse_departures_list:
  assumes "getitem obj ''ActueleVertrekTijden'' = Inr a"
    and "getitem a ''VertrekkendeTrein'' = Inr (PList elems)"
    and "map_each Departure_init elems = Inr ds"
  shows "parse_departures obj = Inr (Some ds)"
  using assms by (simp add: parse_departures_def map_each_departures)

lemma map_each_length:
  "map_each f xs = Inr ys \<Longrightarrow> length ys = length xs"
  by (induction xs arbitrary: ys) (auto simp: bnd_Inr_iff)

lemma classmethod_one_parameter:
  "classmethod_bind 1 cls [xml] = Inl TypeError" "classmethod_bind 1 cls [] = Inr [cls]"
  by (simp_all add: classmethod_bind_def)

text \<open>
  C3 at a stations document with two \<^verbatim>\<open>Station\<close> elements and a trips
  document with two \<^verbatim>\<open>ReisMogelijkheid\<close> elements: both loops complete, and
  both methods end without a \<^verbatim>\<open>return\<close>, so the caller receives
  \<^verbatim>\<open>None\<close> instead of the records. The body of \<^verbatim>\<open>parse_departures\<close>
  does return its list: for the departures document with a delayed and an
  on-time train, two records with delay flags true and false, in document order.
\<close>

theorem parse_methods_C3:
  "parse_stations stations_document = Inr None
   \<and> parse_trips render_json trips_document = Inr None
   \<and> parse_departures departures_document
       = Inr (Some [departure_delayed_built, departure_on_time_built])
   \<and> map has_delay [departure_delayed_built, departure_on_time_built] = [True, False]"
  by code_simp


section \<open>Trip: the delay accessor\<close>

lemma Trip_delay_both_present:
  assumes "departure_time_actual t = Some a" and "departure_time_planned t = Some p"
    and "datetime_sub a p = Inr d"
  shows "Trip_delay t = Inr (if 0 < d then Some d else None)"
  using assms by (simp add: Trip_delay_def datetime_gt_def)

lemma Trip_delay_both_absent:
  assumes "departure_time_actual t = None" and "departure_time_planned t = None"
  shows "Trip_delay t = Inr None"
  using assms by (simp add: Trip_delay_def)

lemma Trip_delay_one_absent:
  assumes "(departure_time_actual t = None) \<noteq> (departure_time_planned t = None)"
  shows "Trip_delay t = Inl TypeError"
  using assms by (auto simp: Trip_delay_def split: option.splits)

text \<open>
  C1 at a trip element without \<^verbatim>\<open>ActueleVertrekTijd\<close>: the trip is built
  with \<open>departure_time_actual\<close> absent, and the \<open>delay\<close> accessor raises
  \<^verbatim>\<open>TypeError\<close> instead of returning an absent value.
\<close>

theorem Trip_delay_C1:
  "Trip_init trip_without_actual_departure = Inr trip_without_actual_departure_built
   \<and> departure_time_actual trip_without_actual_departure_built = None
   \<and> departure_time_planned trip_without_actual_departure_built = Some (sample_time 10 15)
   \<and> Trip_delay trip_without_actual_departure_built = Inl TypeError"
  by code_simp



section \<open>Trip: the JSON projection\<close>

lemma isoformat_cases:
  "(\<exists>s. isoformat dt = Inr s \<and> (\<exists>uo. call_utcoffset dt = Inr uo))
   \<or> (isoformat dt = Inl ValueError \<and> call_utcoffset dt = Inl ValueError)"
  by (auto simp: isoformat_def format_utcoffset_def call_utcoffset_def bnd_def
      split: option.splits)

text \<open>
  C10, as the code has it. If any of the four timestamps of a trip is absent,
  \<open>to_json\<close> fails. If all four are present and the offset of each lies
  strictly within a day, \<open>to_json\<close> succeeds: it is \<^verbatim>\<open>json.dumps\<close> of a
  mapping in which the four timestamps are their \<^verbatim>\<open>isoformat\<close> strings and
  in which every element of \<open>trip_parts\<close> and \<open>trip_remarks\<close> is a string,
  namely \<^verbatim>\<open>json.dumps\<close> of the mapping of that child's attributes. If all
  four are present and some offset is a day or more, \<open>to_json\<close> fails with the
  \<^verbatim>\<open>ValueError\<close> of \<^verbatim>\<open>isoformat\<close>.
\<close>

theorem Trip_to_json_C10:
  "(departure_time_planned t = None \<or> departure_time_actual t = None
      \<or> arrival_time_planned t = None \<or> arrival_time_actual t = None
      \<longrightarrow> (\<exists>e. Trip_to_json dumps t = Inl e))
   \<and> (departure_time_planned t = Some dp \<and> departure_time_actual t = Some da
      \<and> arrival_time_planned t = Some ap \<and> arrival_time_actual t = Some aa
      \<longrightarrow> (if \<forall>dt \<in> {dp, da, ap, aa}. \<exists>uo. call_utcoffset dt = Inr uo
           then \<exists>sdp sda sap saa.
                  isoformat dp = Inr sdp \<and> isoformat da = Inr sda
                  \<and> isoformat ap = Inr sap \<and> isoformat aa = Inr saa
                  \<and> Trip_to_json dumps t =
                      Inr (dumps (PDict
                        [(''status'', status t), (''nr_transfers'', nr_transfers t),
                         (''travel_time_planned'', travel_time_planned t),
                         (''going'', PBool (going t)),
                         (''travel_time_actual'', travel_time_actual t),
                         (''is_optimal'', PBool (is_optimal t)),
                         (''departure_time_planned'', PStr sdp),
                         (''departure_time_actual'', PStr sda),
                         (''arrival_time_planned'', PStr sap),
                         (''arrival_time_actual'', PStr saa),
                         (''trip_parts'',
                            PList (map (\<lambda>p. PStr (dumps (PDict
                                     [(''trip_type'', trip_type p), (''transporter'', transporter p),
                                      (''transport_type'', transport_type p),
                                      (''journey_id'', journey_id p), (''status'', part_status p),
                                      (''going'', PBool (part_going p))])))
                                   (trip_parts t))),
                         (''trip_remarks'',
                            PList (map (\<lambda>r. PStr (dumps (PDict
                                     [(''id'', remark_id r), (''is_grave'', PBool (is_grave r)),
                                      (''text'', remark_text r)])))
                                   (trip_remarks t)))]))
           else Trip_to_json dumps t = Inl ValueError))"
proof (intro conjI impI)
  assume "departure_time_planned t = None \<or> departure_time_actual t = None
      \<or> arrival_time_planned t = None \<or> arrival_time_actual t = None"
  then show "\<exists>e. Trip_to_json dumps t = Inl e"
    by (auto simp: Trip_to_json_def Trip_getstate_def isoformat_attr_def bnd_def
        split: sum.splits option.splits)
next
  assume a: "departure_time_planned t = Some dp \<and> departure_time_actual t = Some da
      \<and> arrival_time_planned t = Some ap \<and> arrival_time_actual t = Some aa"
  show "if \<forall>dt \<in> {dp, da, ap, aa}. \<exists>uo. call_utcoffset dt = Inr uo
           then \<exists>sdp sda sap saa.
                  isoformat dp = Inr sdp \<and> isoformat da = Inr sda
                  \<and> isoformat ap = Inr sap \<and> isoformat aa = Inr saa
                  \<and> Trip_to_json dumps t =
                      Inr (dumps (PDict
                        [(''status'', status t), (''nr_transfers'', nr_transfers t),
                         (''travel_time_planned'', travel_time_planned t),
                         (''going'', PBool (going t)),
                         (''travel_time_actual'', travel_time_actual t),
                         (''is_optimal'', PBool (is_optimal t)),
                         (''departure_time_planned'', PStr sdp),
                         (''departure_time_actual'', PStr sda),
                         (''arrival_time_planned'', PStr sap),
                         (''arrival_time_actual'', PStr saa),
                         (''trip_parts'',
                            PList (map (\<lambda>p. PStr (dumps (PDict
                                     [(''trip_type'', trip_type p), (''transporter'', transporter p),
                                      (''transport_type'', transport_type p),
                                      (''journey_id'', journey_id p), (''status'', part_status p),
                                      (''going'', PBool (part_going p))])))
                                   (trip_parts t))),
                         (''trip_remarks'',
                            PList (map (\<lambda>r. PStr (dumps (PDict
                                     [(''id'', remark_id r), (''is_grave'', PBool (is_grave r)),
                                      (''text'', remark_text r)])))
                                   (trip_remarks t)))]))
           else Trip_to_json dumps t = Inl ValueError"
    using a isoformat_cases [of dp] isoformat_cases [of da]
      isoformat_cases [of ap] isoformat_cases [of aa]
    by (auto simp: Trip_to_json_def Trip_getstate_def isoformat_attr_def
        TripSubpart_to_json_def TripSubpart_getstate_def
        TripRemark_to_json_def TripRemark_getstate_def)
qed

theorem Trip_to_json_C10_witness:
  "departure_time_actual trip_without_actual_departure_built = None
   \<and> (\<exists>e. Trip_to_json render_json trip_without_actual_departure_built = Inl e)
   \<and> departure_time_planned trip_with_lists_built = Some (sample_time 10 15)
   \<and> departure_time_actual trip_with_lists_built = Some (sample_time 10 20)
   \<and> arrival_time_planned trip_with_lists_built = Some (sample_time 10 49)
   \<and> arrival_time_actual trip_with_lists_built = Some (sample_time 10 52)
   \<and> call_utcoffset (sample_time 10 15) = Inr (Some 60)
   \<and> call_utcoffset (sample_time 10 20) = Inr (Some 60)
   \<and> call_utcoffset (sample_time 10 49) = Inr (Some 60)
   \<and> call_utcoffset (sample_time 10 52) = Inr (Some 60)
   \<and> Trip_to_json render_json trip_with_lists_built =
       Inr (render_json (PDict
         [(''status'', PStr ''VERTRAAGD''), (''nr_transfers'', PStr ''0''),
          (''travel_time_planned'', PStr ''0:34''), (''going'', PBool True),
          (''travel_time_actual'', PStr ''0:32''), (''is_optimal'', PBool True),
          (''departure_time_planned'', PStr ''2024-03-01T10:15:00+01:00''),
          (''departure_time_actual'', PStr ''2024-03-01T10:20:00+01:00''),
          (''arrival_time_planned'', PStr ''2024-03-01T10:49:00+01:00''),
          (''arrival_time_actual'', PStr ''2024-03-01T10:52:00+01:00''),
          (''trip_parts'',
             PList [PStr (render_json (PDict
                      [(''trip_type'', PStr ''TRAIN''), (''transporter'', PStr ''NS''),
                       (''transport_type'', PStr ''Intercity''),
                       (''journey_id'', PStr ''4116''),
                       (''status'', PStr ''VOLGENS-PLAN''), (''going'', PBool True)])),
                    PStr (render_json (PDict
                      [(''trip_type'', PStr ''TRAIN''), (''transporter'', PStr ''NS''),
                       (''transport_type'', PStr ''Sprinter''),
                       (''journey_id'', PStr ''5635''),
                       (''status'', PStr ''GEANNULEERD''), (''going'', PBool False)]))]),
          (''trip_remarks'',
             PList [PStr (render_json (PDict
                      [(''id'', PStr ''2024_htn_1''), (''is_grave'', PBool True),
                       (''text'', PStr ''Geen treinverkeer'')])),
                    PStr (render_json (PDict
                      [(''id'', PStr ''2024_ut_7''), (''is_grave'', PBool False),
                       (''text'', PStr ''Let op: gewijzigd vertrekspoor'')]))])]))"
proof -
  have n: "departure_time_actual trip_without_actual_departure_built = None"
    by (simp add: trip_records)
  from Trip_to_json_C10 [where t = trip_without_actual_departure_built and dumps = render_json] n
  have a: "\<exists>e. Trip_to_json render_json trip_without_actual_departure_built = Inl e"
    by blast
  have f: "departure_time_planned trip_with_lists_built = Some (sample_time 10 15)
           \<and> departure_time_actual trip_with_lists_built = Some (sample_time 10 20)
           \<and> arrival_time_planned trip_with_lists_built = Some (sample_time 10 49)
           \<and> arrival_time_actual trip_with_lists_built = Some (sample_time 10 52)"
    by (simp add: trip_records)
  have u: "call_utcoffset (sample_time 10 15) = Inr (Some 60)"
    "call_utcoffset (sample_time 10 20) = Inr (Some 60)"
    "call_utcoffset (sample_time 10 49) = Inr (Some 60)"
    "call_utcoffset (sample_time 10 52) = Inr (Some 60)"
    by (simp_all add: call_utcoffset_def sample_time_def)
  then have ok: "\<forall>dt \<in> {sample_time 10 15, sample_time 10 20, sample_time 10 49,
                          sample_time 10 52}. \<exists>uo. call_utcoffset dt = Inr uo"
    by simp
  have iso: "isoformat (sample_time 10 15) = Inr ''2024-03-01T10:15:00+01:00''"
    "isoformat (sample_time 10 20) = Inr ''2024-03-01T10:20:00+01:00''"
    "isoformat (sample_time 10 49) = Inr ''2024-03-01T10:49:00+01:00''"
    "isoformat (sample_time 10 52) = Inr ''2024-03-01T10:52:00+01:00''"
    by code_simp+
  from Trip_to_json_C10 [where t = trip_with_lists_built and dumps = render_json
      and dp = "sample_time 10 15" and da = "sample_time 10 20"
      and ap = "sample_time 10 49" and aa = "sample_time 10 52"] f ok
  have "\<exists>sdp sda sap saa.
          isoformat (sample_time 10 15) = Inr sdp \<and> isoformat (sample_time 10 20) = Inr sda
          \<and> isoformat (sample_time 10 49) = Inr sap \<and> isoformat (sample_time 10 52) = Inr saa
          \<and> Trip_to_json render_json trip_with_lists_built =
              Inr (render_json (PDict
                [(''status'', status trip_with_lists_built), (''nr_transfers'', nr_transfers trip_with_lists_built),
                 (''travel_time_planned'', travel_time_planned trip_with_lists_built),
                 (''going'', PBool (going trip_with_lists_built)),
                 (''travel_time_actual'', travel_time_actual trip_with_lists_built),
                 (''is_optimal'', PBool (is_optimal trip_with_lists_built)),
                 (''departure_time_planned'', PStr sdp),
                 (''departure_time_actual'', PStr sda),
                 (''arrival_time_planned'', PStr sap),
                 (''arrival_time_actual'', PStr saa),
                 (''trip_parts'',
                    PList (map (\<lambda>p. PStr (render_json (PDict
                             [(''trip_type'', trip_type p), (''transporter'', transporter p),
                              (''transport_type'', transport_type p),
                              (''journey_id'', journey_id p), (''status'', part_status p),
                              (''going'', PBool (part_going p))])))
                           (trip_parts trip_with_lists_built))),
                 (''trip_remarks'',
                    PList (map (\<lambda>r. PStr (render_json (PDict
                             [(''id'', remark_id r), (''is_grave'', PBool (is_grave r)),
                              (''text'', remark_text r)])))
                           (trip_remarks trip_with_lists_built)))]))"
    by presburger
  then have b: "Trip_to_json render_json trip_with_lists_built =
       Inr (render_json (PDict
         [(''status'', PStr ''VERTRAAGD''), (''nr_transfers'', PStr ''0''),
          (''travel_time_planned'', PStr ''0:34''), (''going'', PBool True),
          (''travel_time_actual'', PStr ''0:32''), (''is_optimal'', PBool True),
          (''departure_time_planned'', PStr ''2024-03-01T10:15:00+01:00''),
          (''departure_time_actual'', PStr ''2024-03-01T10:20:00+01:00''),
          (''arrival_time_planned'', PStr ''2024-03-01T10:49:00+01:00''),
          (''arrival_time_actual'', PStr ''2024-03-01T10:52:00+01:00''),
          (''trip_parts'',
             PList [PStr (render_json (PDict
                      [(''trip_type'', PStr ''TRAIN''), (''transporter'', PStr ''NS''),
                       (''transport_type'', PStr ''Intercity''),
                       (''journey_id'', PStr ''4116''),
                       (''status'', PStr ''VOLGENS-PLAN''), (''going'', PBool True)])),
                    PStr (render_json (PDict
                      [(''trip_type'', PStr ''TRAIN''), (''transporter'', PStr ''NS''),
                       (''transport_type'', PStr ''Sprinter''),
                       (''journey_id'', PStr ''5635''),
                       (''status'', PStr ''GEANNULEERD''), (''going'', PBool False)]))]),
          (''trip_remarks'',
             PList [PStr (render_json (PDict
                      [(''id'', PStr ''2024_htn_1''), (''is_grave'', PBool True),
                       (''text'', PStr ''Geen treinverkeer'')])),
                    PStr (render_json (PDict
                      [(''id'', PStr ''2024_ut_7''), (''is_grave'', PBool False),
                       (''text'', PStr ''Let op: gewijzigd vertrekspoor'')]))])]))"
    unfolding iso
    by (auto simp: trip_records trip_part_built_def trip_part_cancelled_built_def
        remark_grave_built_def remark_light_built_def)
  from n a f u b show ?thesis
    by blast
qed

text \<open>
  C10 as the specification states it fails on a trip whose four timestamps are
  all present when one of them carries the suffix \<^verbatim>\<open>+2400\<close>: the
  \<^verbatim>\<open>OffsetTime\<close> of a whole day is accepted by \<^verbatim>\<open>load_datetime\<close>, and
  \<^verbatim>\<open>isoformat\<close> then raises \<^verbatim>\<open>ValueError\<close>, so \<open>to_json\<close> yields no
  JSON at all.
\<close>

theorem Trip_to_json_C10_counterexample:
  "Trip_init trip_offset_of_a_day = Inr trip_offset_of_a_day_built
   \<and> departure_time_planned trip_offset_of_a_day_built = Some (sample_time 10 15)
   \<and> departure_time_actual trip_offset_of_a_day_built = Some time_offset_of_a_day
   \<and> arrival_time_planned trip_offset_of_a_day_built = Some (sample_time 10 49)
   \<and> arrival_time_actual trip_offset_of_a_day_built = Some (sample_time 10 52)
   \<and> Trip_to_json render_json trip_offset_of_a_day_built = Inl ValueError"
  by code_simp


section \<open>Timestamps with a UTC offset\<close>

lemma digit_char_facts:
  assumes "0 \<le> k" and "k < 10"
  shows "digit_of (digit_char k) = Some (nat k)" and "\<not> is_space (digit_char k)"
    and "is_digit (digit_char k)"
proof -
  from assms
  have "k = 0 \<or> k = 1 \<or> k = 2 \<or> k = 3 \<or> k = 4 \<or> k = 5 \<or> k = 6 \<or> k = 7 \<or> k = 8 \<or> k = 9"
    by arith
  then show "digit_of (digit_char k) = Some (nat k)" and "\<not> is_space (digit_char k)"
    and "is_digit (digit_char k)"
    by (auto simp: digit_char_def digit_of_def is_space_def is_digit_def)
qed

lemma decimal_pad2:
  assumes "0 \<le> n" and "n < 100"
  shows "decimal 0 (pad2 n) = nat n"
proof -
  have a: "0 \<le> n div 10 mod 10" "n div 10 mod 10 < 10" "0 \<le> n mod 10" "n mod 10 < 10"
    by simp_all
  have "10 * (n div 10 mod 10) + n mod 10 = n"
    using assms by presburger
  then have "nat n = 10 * nat (n div 10 mod 10) + nat (n mod 10)"
    using a by linarith
  then show ?thesis
    by (simp add: pad2_def digit_char_facts(1) [OF a(1,2)] digit_char_facts(1) [OF a(3,4)])
qed

lemma pad2_digits:
  "takeWhile is_digit (pad2 n) = pad2 n" "dropWhile is_digit (pad2 n) = []"
  "dropWhile is_space (pad2 n) = pad2 n" "pad2 n \<noteq> []"
proof -
  have a: "0 \<le> n div 10 mod 10" "n div 10 mod 10 < 10" "0 \<le> n mod 10" "n mod 10 < 10"
    by simp_all
  show "takeWhile is_digit (pad2 n) = pad2 n" "dropWhile is_digit (pad2 n) = []"
    "dropWhile is_space (pad2 n) = pad2 n" "pad2 n \<noteq> []"
    by (simp_all add: pad2_def digit_char_facts [OF a(1,2)] digit_char_facts [OF a(3,4)])
qed

lemma py_int_signed_pad2:
  assumes "0 \<le> n" and "n < 100"
  shows "py_int (CHR ''+'' # pad2 n) = Inr n" and "py_int (CHR ''-'' # pad2 n) = Inr (- n)"
  using assms
  by (simp_all add: py_int_def Let_def is_space_def pad2_digits decimal_pad2)

lemma OffsetTime_signed:
  assumes "0 \<le> h" and "h < 100" and "0 \<le> m" and "m < 100"
  shows "OffsetTime (CHR ''+'' # pad2 h @ pad2 m) = Inr (60 * h + m)"
    and "OffsetTime (CHR ''-'' # pad2 h @ pad2 m) = Inr (- (60 * h + m))"
proof -
  have t: "take 3 (c # pad2 h @ pad2 m) = c # pad2 h" for c
    by (simp add: pad2_def)
  have d: "drop 3 (c # pad2 h @ pad2 m) = pad2 m" for c
    by (simp add: pad2_def)
  show "OffsetTime (CHR ''+'' # pad2 h @ pad2 m) = Inr (60 * h + m)"
    unfolding OffsetTime_def t d by (simp add: py_int_signed_pad2 assms)
  show "OffsetTime (CHR ''-'' # pad2 h @ pad2 m) = Inr (- (60 * h + m))"
    unfolding OffsetTime_def t d by (simp add: py_int_signed_pad2 assms)
qed

text \<open>
  C8. \<^verbatim>\<open>load_datetime\<close> turns \<^verbatim>\<open>2024-03-01T10:15:00+0530\<close> with the format
  \<^verbatim>\<open>%Y-%m-%dT%H:%M:%S%z\<close> into 1 March 2024, 10:15:00 with an offset of 330
  minutes, and \<^verbatim>\<open>dump_datetime\<close> with the same format gives the string back;
  likewise for the suffix \<^verbatim>\<open>-0330\<close> and an offset of minus 210 minutes.
  For every sign and all two-digit hour and minute parts, the \<^verbatim>\<open>OffsetTime\<close>
  built from the suffix has the offset of that sign with those hours and minutes.
\<close>

theorem load_dump_datetime_C8:
  "load_datetime ''2024-03-01T10:15:00+0530'' ''%Y-%m-%dT%H:%M:%S%z''
     = Inr \<lparr> year = 2024, month = 3, day = 1, hour = 10, minute = 15, second = 0,
             utcoffset = Some (5 * 60 + 30) \<rparr>
   \<and> dump_datetime \<lparr> year = 2024, month = 3, day = 1, hour = 10, minute = 15, second = 0,
                      utcoffset = Some (5 * 60 + 30) \<rparr> ''%Y-%m-%dT%H:%M:%S%z''
     = Inr ''2024-03-01T10:15:00+0530''
   \<and> load_datetime ''2024-03-01T10:15:00-0330'' ''%Y-%m-%dT%H:%M:%S%z''
     = Inr \<lparr> year = 2024, month = 3, day = 1, hour = 10, minute = 15, second = 0,
             utcoffset = Some (- (3 * 60 + 30)) \<rparr>
   \<and> dump_datetime \<lparr> year = 2024, month = 3, day = 1, hour = 10, minute = 15, second = 0,
                      utcoffset = Some (- (3 * 60 + 30)) \<rparr> ''%Y-%m-%dT%H:%M:%S%z''
     = Inr ''2024-03-01T10:15:00-0330''
   \<and> (\<forall>h m. 0 \<le> h \<and> h < 100 \<and> 0 \<le> m \<and> m < 100
        \<longrightarrow> OffsetTime (CHR ''+'' # pad2 h @ pad2 m) = Inr (60 * h + m)
          \<and> OffsetTime (CHR ''-'' # pad2 h @ pad2 m) = Inr (- (60 * h + m)))"
proof (intro conjI allI impI)
  show "load_datetime ''2024-03-01T10:15:00-0330'' ''%Y-%m-%dT%H:%M:%S%z''
     = Inr \<lparr> year = 2024, month = 3, day = 1, hour = 10, minute = 15, second = 0,
             utcoffset = Some (- (3 * 60 + 30)) \<rparr>"
    by code_simp
  show "dump_datetime \<lparr> year = 2024, month = 3, day = 1, hour = 10, minute = 15, second = 0,
                      utcoffset = Some (- (3 * 60 + 30)) \<rparr> ''%Y-%m-%dT%H:%M:%S%z''
     = Inr ''2024-03-01T10:15:00-0330''"
    by code_simp
  show "load_datetime ''2024-03-01T10:15:00+0530'' ''%Y-%m-%dT%H:%M:%S%z''
     = Inr \<lparr> year = 2024, month = 3, day = 1, hour = 10, minute = 15, second = 0,
             utcoffset = Some (5 * 60 + 30) \<rparr>"
    by code_simp
  show "dump_datetime \<lparr> year = 2024, month = 3, day = 1, hour = 10, minute = 15, second = 0,
                      utcoffset = Some (5 * 60 + 30) \<rparr> ''%Y-%m-%dT%H:%M:%S%z''
     = Inr ''2024-03-01T10:15:00+0530''"
    by code_simp
qed (simp_all add: OffsetTime_signed)

theorem load_dump_datetime_C8_witness:
  "(0::int) \<le> 6 \<and> (6::int) < 100 \<and> (0::int) \<le> 45 \<and> (45::int) < 100
   \<and> OffsetTime ''+0645'' = Inr 405 \<and> OffsetTime ''-0645'' = Inr (- 405)"
proof -
  have p: "pad2 6 = ''06''" "pad2 45 = ''45''"
    by (simp_all add: pad2_def digit_char_def)
  from load_dump_datetime_C8
  have "(0::int) \<le> 6 \<and> (6::int) < 100 \<and> (0::int) \<le> 45 \<and> (45::int) < 100
        \<longrightarrow> OffsetTime (CHR ''+'' # pad2 6 @ pad2 45) = Inr (60 * 6 + 45)
          \<and> OffsetTime (CHR ''-'' # pad2 6 @ pad2 45) = Inr (- (60 * 6 + 45))"
    by blast
  then show ?thesis
    by (simp add: p)
qed

end
